theory Spec2Isabelle
  imports Complex_Main "HOL-Library.AList"
begin

section \<open>Python's \<open>Decimal\<close> as the ledger uses it\<close>

text \<open>
  \<^verbatim>\<open>bank_data.py\<close> turns every amount into \<^verbatim>\<open>Decimal(str(amount))\<close> and then only adds,
  subtracts, compares and formats such values. A finite \<^verbatim>\<open>Decimal\<close> is a coefficient
  with a power of ten; two decimals of the same value and different exponents
  (\<^verbatim>\<open>Decimal('0.0')\<close> and \<^verbatim>\<open>Decimal('0.00')\<close>) compare equal and print differently, so the
  exponent is part of the data.

  Arithmetic runs in Python's default context: 28 significant digits, rounding
  \<^verbatim>\<open>ROUND_HALF_EVEN\<close>. The sum is formed exactly at the smaller exponent and then
  cut back to 28 digits when it is longer.

  Outside the model: infinities and NaN, the negative zero that \<^verbatim>\<open>Decimal('-0.0')\<close> keeps,
  and the exponent limits of the context (\<^verbatim>\<open>Emax = 999999\<close>), which sums of values read
  from Python floats stay far away from. The amount handed to an operation is the
  decimal that \<^verbatim>\<open>Decimal(str(amount))\<close> yields for the float; the float comparison
  \<^verbatim>\<open>initial_deposit > 0\<close> agrees with the sign of that decimal.
\<close>

datatype decimal = Decimal (coefficient: int) (exponent: int)

definition prec :: nat where
  "prec = 28"

text \<open>\<^verbatim>\<open>len(str(n))\<close>: the number of decimal digits of a natural number.\<close>

fun num_digits :: "nat \<Rightarrow> nat" where
  "num_digits n = (if n < 10 then 1 else Suc (num_digits (n div 10)))"

declare num_digits.simps [simp del]

text \<open>Dropping the last \<open>k\<close> digits of \<open>n\<close>, a tie going to the even neighbour.\<close>

definition round_half_even :: "nat \<Rightarrow> nat \<Rightarrow> nat" where
  "round_half_even n k =
     (let p = 10 ^ k; q = n div p; r = n mod p
      in if p < 2 * r \<or> (2 * r = p \<and> odd q) then q + 1 else q)"

text \<open>
  \<^verbatim>\<open>Decimal._fix\<close>: a coefficient of more than \<open>prec\<close> digits is rounded to \<open>prec\<close>
  digits; when rounding carries into a further digit, the last digit (a zero) is dropped
  and the exponent raised once more.
\<close>

definition dec_fix :: "decimal \<Rightarrow> decimal" where
  "dec_fix d =
     (let n = nat \<bar>coefficient d\<bar>; len = num_digits n
      in if len \<le> prec then d
         else
           let k = len - prec; m = round_half_even n k
           in if m = 10 ^ prec
              then Decimal (sgn (coefficient d) * 10 ^ (prec - 1)) (exponent d + int k + 1)
              else Decimal (sgn (coefficient d) * int m) (exponent d + int k))"

text \<open>The exact sum, at the smaller of the two exponents.\<close>

definition add_exact :: "decimal \<Rightarrow> decimal \<Rightarrow> decimal" where
  "add_exact a b =
     (let e = min (exponent a) (exponent b)
      in Decimal (coefficient a * 10 ^ nat (exponent a - e)
                  + coefficient b * 10 ^ nat (exponent b - e)) e)"

definition dec_add :: "decimal \<Rightarrow> decimal \<Rightarrow> decimal" where
  "dec_add a b = dec_fix (add_exact a b)"

definition dec_neg :: "decimal \<Rightarrow> decimal" where
  "dec_neg a = Decimal (- coefficient a) (exponent a)"

text \<open>\<^verbatim>\<open>Decimal.__sub__\<close> adds the negated operand.\<close>

definition dec_sub :: "decimal \<Rightarrow> decimal \<Rightarrow> decimal" where
  "dec_sub a b = dec_add a (dec_neg b)"

text \<open>Comparison is by value: both coefficients are brought to the smaller exponent.\<close>

definition aligned :: "decimal \<Rightarrow> decimal \<Rightarrow> int" where
  "aligned a b = coefficient a * 10 ^ nat (exponent a - min (exponent a) (exponent b))"

definition dec_less :: "decimal \<Rightarrow> decimal \<Rightarrow> bool" where
  "dec_less a b \<longleftrightarrow> aligned a b < aligned b a"

definition dec_eq :: "decimal \<Rightarrow> decimal \<Rightarrow> bool" where
  "dec_eq a b \<longleftrightarrow> aligned a b = aligned b a"

text \<open>The rational number a decimal stands for.\<close>

definition dec_val :: "decimal \<Rightarrow> rat" where
  "dec_val d = of_int (coefficient d) * 10 powi exponent d"

text \<open>An addition is exact when the exact sum needs no rounding.\<close>

definition fits :: "decimal \<Rightarrow> bool" where
  "fits d \<longleftrightarrow> num_digits (nat \<bar>coefficient d\<bar>) \<le> prec"

subsection \<open>Formatting\<close>

definition digit_char :: "nat \<Rightarrow> char" where
  "digit_char n = ''0123456789'' ! n"

text \<open>\<^verbatim>\<open>str(n)\<close> for a natural number.\<close>

fun str_nat :: "nat \<Rightarrow> string" where
  "str_nat n =
     (if n < 10 then [digit_char n] else str_nat (n div 10) @ [digit_char (n mod 10)])"

declare str_nat.simps [simp del]

text \<open>\<^verbatim>\<open>f"{n:06d}"\<close>: zero-padded to six characters, longer numbers in full.\<close>

definition format_06d :: "nat \<Rightarrow> string" where
  "format_06d n = replicate (6 - length (str_nat n)) (CHR ''0'') @ str_nat n"

text \<open>
  \<^verbatim>\<open>Decimal._rescale(exp, ROUND_HALF_EVEN)\<close>: the same value at the exponent \<open>x\<close>,
  padded with zeros or rounded.
\<close>

definition rescale :: "decimal \<Rightarrow> int \<Rightarrow> decimal" where
  "rescale d x =
     (if x \<le> exponent d then Decimal (coefficient d * 10 ^ nat (exponent d - x)) x
      else Decimal (sgn (coefficient d)
                    * int (round_half_even (nat \<bar>coefficient d\<bar>) (nat (x - exponent d)))) x)"

text \<open>\<^verbatim>\<open>f"{d:.2f}"\<close>: rescaled to two places, integer part, point, two digits.\<close>

definition format_2f :: "decimal \<Rightarrow> string" where
  "format_2f d =
     (let c = coefficient (rescale d (- 2)); n = nat \<bar>c\<bar>
      in (if c < 0 then ''-'' else '''') @ str_nat (n div 100) @ ''.''
         @ [digit_char (n mod 100 div 10), digit_char (n mod 10)])"

text \<open>
  \<^verbatim>\<open>str(d)\<close>, that is \<^verbatim>\<open>Decimal.__str__\<close>: plain notation when the exponent is at most
  zero and the number is not too small, scientific notation with one digit before the
  point otherwise.
\<close>

definition str_decimal :: "decimal \<Rightarrow> string" where
  "str_decimal d =
     (let ds = str_nat (nat \<bar>coefficient d\<bar>);
          leftdigits = exponent d + int (length ds);
          dotplace = (if exponent d \<le> 0 \<and> - 6 < leftdigits then leftdigits else 1);
          intpart = (if dotplace \<le> 0 then ''0''
                     else if int (length ds) \<le> dotplace
                     then ds @ replicate (nat (dotplace - int (length ds))) (CHR ''0'')
                     else take (nat dotplace) ds);
          fracpart = (if dotplace \<le> 0 then ''.'' @ replicate (nat (- dotplace)) (CHR ''0'') @ ds
                      else if int (length ds) \<le> dotplace then ''''
                      else ''.'' @ drop (nat dotplace) ds);
          ex = (if leftdigits = dotplace then ''''
                else ''E'' @ (if leftdigits - dotplace < 0 then ''-'' else ''+'')
                     @ str_nat (nat \<bar>leftdigits - dotplace\<bar>))
      in (if coefficient d < 0 then ''-'' else '''') @ intpart @ fracpart @ ex)"

section \<open>The data model\<close>

text \<open>A \<^verbatim>\<open>datetime\<close> is only stored, copied and formatted: a clock reading.\<close>

type_synonym datetime = nat

text \<open>
  The four strings that \<^verbatim>\<open>transaction_type\<close> is ever set to. The field
  \<^verbatim>\<open>id\<close> of the two classes is \<open>txn_id\<close> and \<open>acct_id\<close> here.
\<close>

datatype txn_type = T_deposit | T_withdrawal | T_transfer_in | T_transfer_out

record transaction =
  txn_id :: string
  account_id :: string
  amount :: decimal
  transaction_type :: txn_type
  timestamp :: datetime
  description :: string

record account =
  acct_id :: string
  name :: string
  balance :: decimal
  transactions :: "transaction list"
  created_at :: datetime

text \<open>
  The module's globals: the dictionary \<^verbatim>\<open>_accounts\<close>, in insertion order, and the
  counter \<^verbatim>\<open>_transaction_counter[0]\<close>, which starts at 0 and is only ever incremented.
  Assigning to a key that is present replaces the value in place, assigning to a new key
  appends (\<open>AList.update\<close>); \<^verbatim>\<open>del\<close> removes the key (\<open>AList.delete\<close>).
\<close>

record bank =
  accounts :: "(string \<times> account) list"
  transaction_counter :: nat

definition empty_bank :: bank where
  "empty_bank = \<lparr>accounts = [], transaction_counter = 0\<rparr>"

section \<open>Results\<close>

text \<open>
  Every tool returns a string. The model returns which \<^verbatim>\<open>return\<close> statement was
  reached together with the values its f-string interpolates, an error for the strings that
  report a failure; \<open>error_message\<close> and \<open>message\<close> then give the text.
\<close>

datatype party = The_account | Source | Destination

datatype error =
    NotFound party string
  | NonZeroBalance decimal
  | InsufficientFunds decimal
  | SameAccount

datatype success =
    Created string decimal
  | Info string string decimal datetime nat
  | Closed string
  | Deposited decimal string decimal
  | Withdrew decimal string decimal
  | Transferred decimal string string decimal decimal
  | NoTransactions string
  | History string "transaction list" decimal

type_synonym result = "error + success"

fun error_message :: "error \<Rightarrow> string" where
  "error_message (NotFound The_account i) = ''Error: Account '' @ i @ '' not found.''"
| "error_message (NotFound Source i) = ''Error: Source account '' @ i @ '' not found.''"
| "error_message (NotFound Destination i) =
     ''Error: Destination account '' @ i @ '' not found.''"
| "error_message (NonZeroBalance b) =
     ''Error: Cannot close account with balance $'' @ format_2f b
     @ ''. Please withdraw all funds first.''"
| "error_message (InsufficientFunds b) =
     ''Error: Insufficient funds. Available balance: $'' @ format_2f b"
| "error_message SameAccount = ''Error: Cannot transfer to the same account.''"

section \<open>Identifiers\<close>

definition generate_transaction_id :: "bank \<Rightarrow> string \<times> bank" where
  "generate_transaction_id s =
     (let n = transaction_counter s + 1
      in (''TXN'' @ format_06d n, s\<lparr>transaction_counter := n\<rparr>))"

definition generate_account_id :: "bank \<Rightarrow> string" where
  "generate_account_id s = ''ACC'' @ format_06d (length (accounts s) + 1)"

section \<open>Tools for account management\<close>

text \<open>
  \<^verbatim>\<open>create_account\<close> reads the clock twice: for \<^verbatim>\<open>created_at\<close> when the
  \<^verbatim>\<open>Account\<close> is built, and for the timestamp of the initial deposit.
\<close>

definition create_account ::
  "bank \<Rightarrow> string \<Rightarrow> decimal \<Rightarrow> datetime \<Rightarrow> datetime \<Rightarrow> result \<times> bank" where
  "create_account s nm initial_deposit now_created now_txn =
     (let aid = generate_account_id s;
          acct = \<lparr>acct_id = aid, name = nm, balance = initial_deposit,
                  transactions = [], created_at = now_created\<rparr>
      in if 0 < coefficient initial_deposit
         then
           let (tid, s1) = generate_transaction_id s;
               txn = \<lparr>txn_id = tid, account_id = aid, amount = initial_deposit,
                      transaction_type = T_deposit, timestamp = now_txn,
                      description = ''Initial deposit''\<rparr>;
               acct1 = acct\<lparr>transactions := transactions acct @ [txn]\<rparr>
           in (Inr (Created aid (balance acct1)),
               s1\<lparr>accounts := AList.update aid acct1 (accounts s1)\<rparr>)
         else (Inr (Created aid (balance acct)),
               s\<lparr>accounts := AList.update aid acct (accounts s)\<rparr>))"

definition get_account_info :: "bank \<Rightarrow> string \<Rightarrow> result" where
  "get_account_info s aid =
     (case map_of (accounts s) aid of
        None \<Rightarrow> Inl (NotFound The_account aid)
      | Some acct \<Rightarrow>
          Inr (Info (acct_id acct) (name acct) (balance acct) (created_at acct)
                 (length (transactions acct))))"

definition close_account :: "bank \<Rightarrow> string \<Rightarrow> result \<times> bank" where
  "close_account s aid =
     (case map_of (accounts s) aid of
        None \<Rightarrow> (Inl (NotFound The_account aid), s)
      | Some acct \<Rightarrow>
          if \<not> dec_eq (balance acct) (Decimal 0 (- 2))
          then (Inl (NonZeroBalance (balance acct)), s)
          else (Inr (Closed aid), s\<lparr>accounts := AList.delete aid (accounts s)\<rparr>))"

section \<open>Tools for transactions\<close>

definition deposit :: "bank \<Rightarrow> string \<Rightarrow> decimal \<Rightarrow> string \<Rightarrow> datetime \<Rightarrow> result \<times> bank" where
  "deposit s aid deposit_amount descr now =
     (case map_of (accounts s) aid of
        None \<Rightarrow> (Inl (NotFound The_account aid), s)
      | Some acct \<Rightarrow>
          let (tid, s1) = generate_transaction_id s;
              txn = \<lparr>txn_id = tid, account_id = aid, amount = deposit_amount,
                     transaction_type = T_deposit, timestamp = now, description = descr\<rparr>;
              acct1 = acct\<lparr>balance := dec_add (balance acct) deposit_amount\<rparr>;
              acct2 = acct1\<lparr>transactions := transactions acct1 @ [txn]\<rparr>
          in (Inr (Deposited deposit_amount aid (balance acct2)),
              s1\<lparr>accounts := AList.update aid acct2 (accounts s1)\<rparr>))"

definition withdraw :: "bank \<Rightarrow> string \<Rightarrow> decimal \<Rightarrow> string \<Rightarrow> datetime \<Rightarrow> result \<times> bank" where
  "withdraw s aid withdrawal_amount descr now =
     (case map_of (accounts s) aid of
        None \<Rightarrow> (Inl (NotFound The_account aid), s)
      | Some acct \<Rightarrow>
          if dec_less (balance acct) withdrawal_amount
          then (Inl (InsufficientFunds (balance acct)), s)
          else
            let (tid, s1) = generate_transaction_id s;
                txn = \<lparr>txn_id = tid, account_id = aid, amount = withdrawal_amount,
                       transaction_type = T_withdrawal, timestamp = now,
                       description = descr\<rparr>;
                acct1 = acct\<lparr>balance := dec_sub (balance acct) withdrawal_amount\<rparr>;
                acct2 = acct1\<lparr>transactions := transactions acct1 @ [txn]\<rparr>
            in (Inr (Withdrew withdrawal_amount aid (balance acct2)),
                s1\<lparr>accounts := AList.update aid acct2 (accounts s1)\<rparr>))"

text \<open>
  In \<^verbatim>\<open>transfer\<close> the two accounts are distinct objects once the identifiers differ, so
  the four in-place updates are two independent writes to the dictionary.
\<close>

definition transfer ::
  "bank \<Rightarrow> string \<Rightarrow> string \<Rightarrow> decimal \<Rightarrow> string \<Rightarrow> datetime \<Rightarrow> result \<times> bank" where
  "transfer s from_id to_id transfer_amount descr now =
     (case map_of (accounts s) from_id of
        None \<Rightarrow> (Inl (NotFound Source from_id), s)
      | Some from_account \<Rightarrow>
          (case map_of (accounts s) to_id of
             None \<Rightarrow> (Inl (NotFound Destination to_id), s)
           | Some to_account \<Rightarrow>
               if from_id = to_id then (Inl SameAccount, s)
               else if dec_less (balance from_account) transfer_amount
               then (Inl (InsufficientFunds (balance from_account)), s)
               else
                 let (out_id, s1) = generate_transaction_id s;
                     out_transaction =
                       \<lparr>txn_id = out_id, account_id = from_id, amount = transfer_amount,
                        transaction_type = T_transfer_out, timestamp = now,
                        description = descr @ '' to '' @ to_id\<rparr>;
                     (in_id, s2) = generate_transaction_id s1;
                     in_transaction =
                       \<lparr>txn_id = in_id, account_id = to_id, amount = transfer_amount,
                        transaction_type = T_transfer_in, timestamp = now,
                        description = descr @ '' from '' @ from_id\<rparr>;
                     from1 = from_account
                       \<lparr>balance := dec_sub (balance from_account) transfer_amount\<rparr>;
                     to1 = to_account\<lparr>balance := dec_add (balance to_account) transfer_amount\<rparr>;
                     from2 = from1\<lparr>transactions := transactions from1 @ [out_transaction]\<rparr>;
                     to2 = to1\<lparr>transactions := transactions to1 @ [in_transaction]\<rparr>
                 in (Inr (Transferred transfer_amount from_id to_id (balance from2) (balance to2)),
                     s2\<lparr>accounts :=
                          AList.update to_id to2 (AList.update from_id from2 (accounts s2))\<rparr>)))"

text \<open>
  \<^verbatim>\<open>xs[i:]\<close>: a negative start counts from the end, and a start before the beginning
  is the beginning.
\<close>

definition py_slice_from :: "'a list \<Rightarrow> int \<Rightarrow> 'a list" where
  "py_slice_from xs i =
     (if i < 0 then drop (nat (int (length xs) + i)) xs else drop (nat i) xs)"

text \<open>
  The value \<open>History\<close> carries the slice \<^verbatim>\<open>account.transactions[-limit:]\<close> in stored
  order; the lines of the reply walk it in reverse.
\<close>

definition get_transaction_history :: "bank \<Rightarrow> string \<Rightarrow> int \<Rightarrow> result" where
  "get_transaction_history s aid limit =
     (case map_of (accounts s) aid of
        None \<Rightarrow> Inl (NotFound The_account aid)
      | Some acct \<Rightarrow>
          let txns = py_slice_from (transactions acct) (- limit)
          in if txns = [] then Inr (NoTransactions aid)
             else Inr (History aid txns (balance acct)))"

definition sign_of :: "transaction \<Rightarrow> string" where
  "sign_of txn = (if transaction_type txn \<in> {T_deposit, T_transfer_in} then ''+'' else ''-'')"

text \<open>
  \<^verbatim>\<open>strftime\<close> and \<^verbatim>\<open>isoformat\<close> belong to \<^verbatim>\<open>datetime\<close>; the rendering takes them as
  parameters.
\<close>

definition history_line :: "(datetime \<Rightarrow> string) \<Rightarrow> transaction \<Rightarrow> string" where
  "history_line strftime txn =
     ''  '' @ strftime (timestamp txn) @ '' | '' @ sign_of txn @ ''$''
     @ format_2f (amount txn) @ '' | '' @ description txn"

definition history_lines ::
  "(datetime \<Rightarrow> string) \<Rightarrow> string \<Rightarrow> transaction list \<Rightarrow> decimal \<Rightarrow> string list" where
  "history_lines strftime aid txns bal =
     [''Transaction History for '' @ aid @ '':'', replicate 50 (CHR ''-'')]
     @ map (history_line strftime) (rev txns)
     @ [replicate 50 (CHR ''-'')]
     @ [''Current Balance: $'' @ format_2f bal]"

text \<open>\<^verbatim>\<open>"\n".join(lines)\<close>\<close>

fun join_lines :: "string list \<Rightarrow> string" where
  "join_lines [] = []"
| "join_lines [l] = l"
| "join_lines (l # ls) = l @ [CHR 0x0A] @ join_lines ls"

fun message :: "(datetime \<Rightarrow> string) \<Rightarrow> (datetime \<Rightarrow> string) \<Rightarrow> success \<Rightarrow> string" where
  "message isoformat strftime (Created aid bal) =
     ''Account created successfully. Account ID: '' @ aid @ '', Balance: $'' @ format_2f bal"
| "message isoformat strftime (Info aid nm bal created n) =
     join_lines [''Account ID: '' @ aid, ''Name: '' @ nm, ''Balance: $'' @ format_2f bal,
       ''Created: '' @ isoformat created, ''Transaction count: '' @ str_nat n]"
| "message isoformat strftime (Closed aid) =
     ''Account '' @ aid @ '' has been closed successfully.''"
| "message isoformat strftime (Deposited amt aid bal) =
     ''Deposited $'' @ format_2f amt @ '' to '' @ aid @ ''. New balance: $'' @ format_2f bal"
| "message isoformat strftime (Withdrew amt aid bal) =
     ''Withdrew $'' @ format_2f amt @ '' from '' @ aid @ ''. New balance: $'' @ format_2f bal"
| "message isoformat strftime (Transferred amt from_id to_id fb tb) =
     join_lines [''Transferred $'' @ format_2f amt @ '' from '' @ from_id @ '' to '' @ to_id @ ''.'',
       ''Source balance: $'' @ format_2f fb, ''Destination balance: $'' @ format_2f tb]"
| "message isoformat strftime (NoTransactions aid) =
     ''No transactions found for account '' @ aid @ ''.''"
| "message isoformat strftime (History aid txns bal) =
     join_lines (history_lines strftime aid txns bal)"

text \<open>The string a tool returns.\<close>

definition reply_text ::
  "(datetime \<Rightarrow> string) \<Rightarrow> (datetime \<Rightarrow> string) \<Rightarrow> result \<Rightarrow> string" where
  "reply_text isoformat strftime r =
     (case r of Inl e \<Rightarrow> error_message e | Inr v \<Rightarrow> message isoformat strftime v)"

section \<open>Resources\<close>

definition get_balance_resource :: "bank \<Rightarrow> string \<Rightarrow> string" where
  "get_balance_resource s aid =
     (case map_of (accounts s) aid of
        None \<Rightarrow> ''0.00''
      | Some acct \<Rightarrow> str_decimal (balance acct))"

section \<open>Sequences of tool calls\<close>

text \<open>
  The calls that change the store, each with its arguments and the clock readings it
  takes.
\<close>

datatype call =
    Call_create_account string decimal datetime datetime
  | Call_close_account string
  | Call_deposit string decimal string datetime
  | Call_withdraw string decimal string datetime
  | Call_transfer string string decimal string datetime

fun step :: "bank \<Rightarrow> call \<Rightarrow> result \<times> bank" where
  "step s (Call_create_account nm d t1 t2) = create_account s nm d t1 t2"
| "step s (Call_close_account aid) = close_account s aid"
| "step s (Call_deposit aid amt descr t) = deposit s aid amt descr t"
| "step s (Call_withdraw aid amt descr t) = withdraw s aid amt descr t"
| "step s (Call_transfer from_id to_id amt descr t) = transfer s from_id to_id amt descr t"

fun run :: "bank \<Rightarrow> call list \<Rightarrow> bank" where
  "run s [] = s"
| "run s (c # cs) = run (snd (step s c)) cs"

text \<open>The replies of a sequence of calls, in order.\<close>

fun replies :: "bank \<Rightarrow> call list \<Rightarrow> result list" where
  "replies s [] = []"
| "replies s (c # cs) = fst (step s c) # replies (snd (step s c)) cs"

section \<open>Validated arguments\<close>

text \<open>
  The framework checks the declared bounds before a tool runs: \<^verbatim>\<open>ge=0\<close> on
  \<^verbatim>\<open>initial_deposit\<close>, \<^verbatim>\<open>gt=0\<close> on every \<^verbatim>\<open>amount\<close>.
\<close>

fun valid_call :: "call \<Rightarrow> bool" where
  "valid_call (Call_create_account nm d t1 t2) \<longleftrightarrow> 0 \<le> coefficient d"
| "valid_call (Call_close_account aid) \<longleftrightarrow> True"
| "valid_call (Call_deposit aid amt descr t) \<longleftrightarrow> 0 < coefficient amt"
| "valid_call (Call_withdraw aid amt descr t) \<longleftrightarrow> 0 < coefficient amt"
| "valid_call (Call_transfer from_id to_id amt descr t) \<longleftrightarrow> 0 < coefficient amt"

section \<open>What the ledger should add up to\<close>

text \<open>
  The signed sum of an account's stored transactions, as a rational number: deposits and
  incoming transfers count positive, withdrawals and outgoing transfers negative.
\<close>

definition signed_amount :: "transaction \<Rightarrow> rat" where
  "signed_amount txn =
     (if transaction_type txn = T_deposit \<or> transaction_type txn = T_transfer_in
      then dec_val (amount txn) else - dec_val (amount txn))"

definition ledger_sum :: "transaction list \<Rightarrow> rat" where
  "ledger_sum txns = sum_list (map signed_amount txns)"

text \<open>What a reply says was added to or taken from the account.\<close>

fun net_of_reply :: "result \<Rightarrow> rat" where
  "net_of_reply (Inr (Deposited amt aid bal)) = dec_val amt"
| "net_of_reply (Inr (Withdrew amt aid bal)) = - dec_val amt"
| "net_of_reply r = 0"

text \<open>A deposit to or a withdrawal from the account \<open>aid\<close>.\<close>

fun on_account :: "string \<Rightarrow> call \<Rightarrow> bool" where
  "on_account aid (Call_deposit k amt descr t) \<longleftrightarrow> k = aid"
| "on_account aid (Call_withdraw k amt descr t) \<longleftrightarrow> k = aid"
| "on_account aid c \<longleftrightarrow> False"

section \<open>Calls whose arithmetic is exact\<close>

text \<open>
  Adding \<open>x\<close> to the balance stored under \<open>aid\<close> needs no rounding: the exact sum has
  at most \<open>prec\<close> digits.
\<close>

definition exact_update :: "bank \<Rightarrow> string \<Rightarrow> decimal \<Rightarrow> bool" where
  "exact_update s aid x =
     (case map_of (accounts s) aid of
        None \<Rightarrow> True
      | Some acct \<Rightarrow> fits (add_exact (balance acct) x))"

text \<open>The balance updates that a call makes when it goes through.\<close>

fun exact_updates :: "bank \<Rightarrow> call \<Rightarrow> bool" where
  "exact_updates s (Call_deposit aid amt descr t) \<longleftrightarrow> exact_update s aid amt"
| "exact_updates s (Call_withdraw aid amt descr t) \<longleftrightarrow> exact_update s aid (dec_neg amt)"
| "exact_updates s (Call_transfer from_id to_id amt descr t) \<longleftrightarrow>
     exact_update s from_id (dec_neg amt) \<and> exact_update s to_id amt"
| "exact_updates s c \<longleftrightarrow> True"

text \<open>
  A call is exact when it is refused, and so updates no balance, or when it goes through
  and none of its balance updates is rounded.
\<close>

definition exact_call :: "bank \<Rightarrow> call \<Rightarrow> bool" where
  "exact_call s c = (case fst (step s c) of Inl e \<Rightarrow> True | Inr v \<Rightarrow> exact_updates s c)"

fun exact_run :: "bank \<Rightarrow> call list \<Rightarrow> bool" where
  "exact_run s [] \<longleftrightarrow> True"
| "exact_run s (c # cs) \<longleftrightarrow> exact_call s c \<and> exact_run (snd (step s c)) cs"

section \<open>Basic facts\<close>

lemmas exec_defs = create_account_def close_account_def deposit_def withdraw_def transfer_def
  get_account_info_def get_transaction_history_def get_balance_resource_def
  generate_account_id_def generate_transaction_id_def empty_bank_def Let_def

lemma map_of_update_same: "map_of (AList.update k v al) k = Some v"
  by (simp add: update_conv')

lemma map_of_delete_same: "map_of (AList.delete k al) k = None"
  by (simp add: delete_conv')

lemma format_06d_digit: "n < 10 \<Longrightarrow> format_06d n = ''00000'' @ [digit_char n]"
  unfolding format_06d_def by (subst (1 2) str_nat.simps) (simp add: eval_nat_numeral)

lemma format_06d_Suc_0: "format_06d (Suc 0) = ''000001''"
  by (simp add: format_06d_digit digit_char_def)

lemmas format_defs = format_06d_digit format_2f_def str_decimal_def rescale_def str_nat.simps
  digit_char_def round_half_even_def

lemmas dec_defs = dec_add_def add_exact_def dec_fix_def dec_sub_def dec_neg_def dec_less_def
  dec_eq_def aligned_def fits_def prec_def num_digits.simps round_half_even_def

subsection \<open>Decimals by value\<close>

lemma pow_shift: "e \<le> x \<Longrightarrow> (10::rat) ^ nat (x - e) * 10 powi e = 10 powi x"
proof -
  assume "e \<le> x"
  then obtain n where x: "x = int n + e"
    by (metis diff_add_cancel nonneg_int_cases diff_ge_0_iff_ge)
  have "(10::rat) powi (int n + e) = 10 powi int n * 10 powi e"
    by (rule power_int_add) simp
  then show ?thesis by (simp add: x)
qed

lemma dec_val_aligned:
  "of_int (aligned a b) * 10 powi (min (exponent a) (exponent b)) = dec_val a"
proof -
  have "min (exponent a) (exponent b) \<le> exponent a" by simp
  from pow_shift [OF this] show ?thesis
    by (simp add: aligned_def dec_val_def mult.assoc)
qed

lemma dec_less_iff: "dec_less a b \<longleftrightarrow> dec_val a < dec_val b"
proof -
  let ?m = "min (exponent a) (exponent b)"
  have pos: "(0::rat) < 10 powi ?m" by simp
  have a: "dec_val a = of_int (aligned a b) * 10 powi ?m"
    by (simp add: dec_val_aligned)
  have b: "dec_val b = of_int (aligned b a) * 10 powi ?m"
    using dec_val_aligned [of b a] by (simp add: min.commute)
  show ?thesis
    unfolding dec_less_def a b using pos by (simp add: mult_less_cancel_right_pos)
qed

lemma dec_eq_iff: "dec_eq a b \<longleftrightarrow> dec_val a = dec_val b"
proof -
  let ?m = "min (exponent a) (exponent b)"
  have pos: "(10::rat) powi ?m \<noteq> 0" by simp
  have a: "dec_val a = of_int (aligned a b) * 10 powi ?m"
    by (simp add: dec_val_aligned)
  have b: "dec_val b = of_int (aligned b a) * 10 powi ?m"
    using dec_val_aligned [of b a] by (simp add: min.commute)
  show ?thesis
    unfolding dec_eq_def a b using pos by simp
qed

lemma dec_eq_zero: "dec_eq b (Decimal 0 x) \<longleftrightarrow> coefficient b = 0"
  by (simp add: dec_eq_def aligned_def)

lemma dec_val_eq_0: "dec_val d = 0 \<longleftrightarrow> coefficient d = 0"
  by (simp add: dec_val_def)

lemma add_exact_aligned:
  "add_exact a b = Decimal (aligned a b + aligned b a) (min (exponent a) (exponent b))"
  by (simp add: add_exact_def aligned_def Let_def min.commute)

lemma dec_val_add_exact: "dec_val (add_exact a b) = dec_val a + dec_val b"
proof -
  let ?m = "min (exponent a) (exponent b)"
  have "dec_val (add_exact a b) = of_int (aligned a b + aligned b a) * 10 powi ?m"
    by (simp add: add_exact_aligned dec_val_def)
  also have "\<dots> = of_int (aligned a b) * 10 powi ?m + of_int (aligned b a) * 10 powi ?m"
    by (simp add: distrib_right)
  also have "of_int (aligned a b) * 10 powi ?m = dec_val a"
    by (rule dec_val_aligned)
  also have "of_int (aligned b a) * 10 powi ?m = dec_val b"
    using dec_val_aligned [of b a] by (simp add: min.commute)
  finally show ?thesis .
qed

lemma dec_fix_fits: "fits d \<Longrightarrow> dec_fix d = d"
  by (simp add: fits_def dec_fix_def Let_def)

lemma dec_val_neg: "dec_val (dec_neg a) = - dec_val a"
  by (simp add: dec_val_def dec_neg_def)

lemma dec_val_add: "fits (add_exact a b) \<Longrightarrow> dec_val (dec_add a b) = dec_val a + dec_val b"
  by (simp add: dec_add_def dec_fix_fits dec_val_add_exact)

lemma dec_val_sub:
  "fits (add_exact a (dec_neg b)) \<Longrightarrow> dec_val (dec_sub a b) = dec_val a - dec_val b"
  by (simp add: dec_sub_def dec_val_add dec_val_neg)

lemma pow10_pos: "(0::rat) < 10 powi e"
  by simp

lemma dec_val_nonneg: "0 \<le> dec_val d \<longleftrightarrow> 0 \<le> coefficient d"
  using pow10_pos [of "exponent d"]
  by (simp add: dec_val_def zero_le_mult_iff not_le [symmetric] del: zero_less_power_int)

lemma dec_val_pos: "0 < dec_val d \<longleftrightarrow> 0 < coefficient d"
  using pow10_pos [of "exponent d"]
  by (simp add: dec_val_def zero_less_mult_iff not_less [symmetric] del: zero_less_power_int)

lemma dec_fix_nonneg: "0 \<le> coefficient d \<Longrightarrow> 0 \<le> coefficient (dec_fix d)"
  by (simp add: dec_fix_def Let_def sgn_if)

lemma dec_add_nonneg:
  assumes "0 \<le> dec_val a" and "0 \<le> dec_val b"
  shows "0 \<le> dec_val (dec_add a b)"
proof -
  from assms have "0 \<le> dec_val (add_exact a b)"
    by (simp add: dec_val_add_exact)
  then show ?thesis
    by (simp add: dec_val_nonneg dec_add_def dec_fix_nonneg)
qed

lemma dec_sub_nonneg:
  assumes "\<not> dec_val a < dec_val b"
  shows "0 \<le> dec_val (dec_sub a b)"
proof -
  from assms have "0 \<le> dec_val (add_exact a (dec_neg b))"
    by (simp add: dec_val_add_exact dec_val_neg)
  then show ?thesis
    by (simp add: dec_val_nonneg dec_sub_def dec_add_def dec_fix_nonneg)
qed

subsection \<open>Slices\<close>

lemma rev_slice_last:
  assumes "1 \<le> limit"
  shows "rev (py_slice_from xs (- limit)) = take (nat limit) (rev xs)"
proof (cases "nat limit \<le> length xs")
  case True
  with assms show ?thesis
    by (simp add: py_slice_from_def rev_drop nat_diff_distrib')
next
  case False
  with assms show ?thesis
    by (simp add: py_slice_from_def)
qed

lemma py_slice_last_nonempty:
  "xs \<noteq> [] \<Longrightarrow> 1 \<le> limit \<Longrightarrow> py_slice_from xs (- limit) \<noteq> []"
  by (cases xs) (auto simp: py_slice_from_def)

section \<open>What each tool does to the store\<close>

lemma create_account_accounts:
  "map_of (accounts (snd (create_account s nm d t1 t2)))
   = (map_of (accounts s))(generate_account_id s \<mapsto>
       \<lparr>acct_id = generate_account_id s, name = nm, balance = d,
        transactions =
          (if 0 < coefficient d
           then [\<lparr>txn_id = ''TXN'' @ format_06d (transaction_counter s + 1),
                  account_id = generate_account_id s, amount = d,
                  transaction_type = T_deposit, timestamp = t2,
                  description = ''Initial deposit''\<rparr>]
           else []),
        created_at = t1\<rparr>)"
  by (simp add: create_account_def Let_def generate_transaction_id_def update_conv')

lemma close_account_accounts:
  "map_of (accounts (snd (close_account s aid))) = map_of (accounts s)
   \<or> map_of (accounts (snd (close_account s aid))) = (map_of (accounts s))(aid := None)"
  by (simp add: close_account_def delete_conv' split: option.split)

lemma deposit_absent:
  "map_of (accounts s) aid = None \<Longrightarrow>
   deposit s aid amt descr now = (Inl (NotFound The_account aid), s)"
  by (simp add: deposit_def)

lemma deposit_present:
  "map_of (accounts s) aid = Some a \<Longrightarrow>
   fst (deposit s aid amt descr now) = Inr (Deposited amt aid (dec_add (balance a) amt))
   \<and> map_of (accounts (snd (deposit s aid amt descr now)))
     = (map_of (accounts s))(aid \<mapsto>
         a\<lparr>balance := dec_add (balance a) amt,
           transactions := transactions a @
             [\<lparr>txn_id = ''TXN'' @ format_06d (transaction_counter s + 1), account_id = aid,
               amount = amt, transaction_type = T_deposit, timestamp = now,
               description = descr\<rparr>]\<rparr>)"
  by (simp add: deposit_def Let_def generate_transaction_id_def update_conv')

lemma withdraw_absent:
  "map_of (accounts s) aid = None \<Longrightarrow>
   withdraw s aid amt descr now = (Inl (NotFound The_account aid), s)"
  by (simp add: withdraw_def)

lemma withdraw_insufficient:
  "map_of (accounts s) aid = Some a \<Longrightarrow> dec_val (balance a) < dec_val amt \<Longrightarrow>
   withdraw s aid amt descr now = (Inl (InsufficientFunds (balance a)), s)"
  by (simp add: withdraw_def dec_less_iff)

lemma withdraw_sufficient:
  "map_of (accounts s) aid = Some a \<Longrightarrow> \<not> dec_val (balance a) < dec_val amt \<Longrightarrow>
   fst (withdraw s aid amt descr now) = Inr (Withdrew amt aid (dec_sub (balance a) amt))
   \<and> map_of (accounts (snd (withdraw s aid amt descr now)))
     = (map_of (accounts s))(aid \<mapsto>
         a\<lparr>balance := dec_sub (balance a) amt,
           transactions := transactions a @
             [\<lparr>txn_id = ''TXN'' @ format_06d (transaction_counter s + 1), account_id = aid,
               amount = amt, transaction_type = T_withdrawal, timestamp = now,
               description = descr\<rparr>]\<rparr>)"
  by (simp add: withdraw_def Let_def generate_transaction_id_def update_conv' dec_less_iff)

lemma transfer_error_keeps_store:
  "fst (transfer s from_id to_id amt descr now) = Inl e \<Longrightarrow>
   snd (transfer s from_id to_id amt descr now) = s"
  by (auto simp: transfer_def Let_def split: option.splits prod.splits if_splits)

lemma transfer_success:
  assumes "map_of (accounts s) from_id = Some fa" and "map_of (accounts s) to_id = Some ta"
    and "from_id \<noteq> to_id" and "\<not> dec_val (balance fa) < dec_val amt"
  shows "fst (transfer s from_id to_id amt descr now)
      = Inr (Transferred amt from_id to_id (dec_sub (balance fa) amt) (dec_add (balance ta) amt))
   \<and> map_of (accounts (snd (transfer s from_id to_id amt descr now)))
     = (map_of (accounts s))
         (from_id \<mapsto>
            fa\<lparr>balance := dec_sub (balance fa) amt,
              transactions := transactions fa @
                [\<lparr>txn_id = ''TXN'' @ format_06d (transaction_counter s + 1),
                  account_id = from_id, amount = amt, transaction_type = T_transfer_out,
                  timestamp = now, description = descr @ '' to '' @ to_id\<rparr>]\<rparr>,
          to_id \<mapsto>
            ta\<lparr>balance := dec_add (balance ta) amt,
              transactions := transactions ta @
                [\<lparr>txn_id = ''TXN'' @ format_06d (transaction_counter s + 1 + 1),
                  account_id = to_id, amount = amt, transaction_type = T_transfer_in,
                  timestamp = now, description = descr @ '' from '' @ from_id\<rparr>]\<rparr>)"
  using assms
  by (simp add: transfer_def Let_def generate_transaction_id_def update_conv' dec_less_iff)


subsection \<open>Balances never go below zero\<close>

lemma step_nonneg:
  assumes "valid_call c"
    and inv: "\<And>k a. map_of (accounts s) k = Some a \<Longrightarrow> 0 \<le> dec_val (balance a)"
    and after: "map_of (accounts (snd (step s c))) k = Some a"
  shows "0 \<le> dec_val (balance a)"
proof (cases c)
  case (Call_create_account nm d t1 t2)
  with assms(1) after inv show ?thesis
    by (auto simp: create_account_accounts dec_val_nonneg split: if_splits)
next
  case (Call_close_account aid)
  with after inv close_account_accounts [of s aid] show ?thesis
    by (auto split: if_splits)
next
  case (Call_deposit aid amt descr t)
  show ?thesis
  proof (cases "map_of (accounts s) aid")
    case None
    with Call_deposit after inv show ?thesis
      by (simp add: deposit_absent)
  next
    case (Some b)
    have "0 \<le> dec_val (dec_add (balance b) amt)"
      using assms(1) Call_deposit inv [OF Some]
      by (intro dec_add_nonneg) (simp_all add: dec_val_nonneg)
    with Call_deposit after inv Some show ?thesis
      by (auto simp: deposit_present split: if_splits)
  qed
next
  case (Call_withdraw aid amt descr t)
  show ?thesis
  proof (cases "map_of (accounts s) aid")
    case None
    with Call_withdraw after inv show ?thesis
      by (simp add: withdraw_absent)
  next
    case (Some b)
    show ?thesis
    proof (cases "dec_val (balance b) < dec_val amt")
      case True
      with Call_withdraw after inv Some show ?thesis
        by (simp add: withdraw_insufficient)
    next
      case False
      then have "0 \<le> dec_val (dec_sub (balance b) amt)"
        by (rule dec_sub_nonneg)
      with Call_withdraw after inv Some False show ?thesis
        by (auto simp: withdraw_sufficient split: if_splits)
    qed
  qed
next
  case (Call_transfer from_id to_id amt descr t)
  show ?thesis
  proof (cases "fst (transfer s from_id to_id amt descr t)")
    case (Inl e)
    then have "snd (transfer s from_id to_id amt descr t) = s"
      by (rule transfer_error_keeps_store)
    with Call_transfer after inv show ?thesis
      by simp
  next
    case (Inr v)
    then obtain fa ta where fa: "map_of (accounts s) from_id = Some fa"
      and ta: "map_of (accounts s) to_id = Some ta" and ne: "from_id \<noteq> to_id"
      and enough: "\<not> dec_val (balance fa) < dec_val amt"
      by (auto simp: transfer_def dec_less_iff Let_def split: option.splits if_splits)
    have "0 \<le> dec_val (dec_sub (balance fa) amt)"
      using enough by (rule dec_sub_nonneg)
    moreover have "0 \<le> dec_val (dec_add (balance ta) amt)"
      using assms(1) Call_transfer inv [OF ta]
      by (intro dec_add_nonneg) (simp_all add: dec_val_nonneg)
    ultimately show ?thesis
      using Call_transfer after inv transfer_success [OF fa ta ne enough, of descr t]
      by (auto split: if_splits)
  qed
qed

lemma run_nonneg:
  assumes "list_all valid_call cs"
    and "\<And>k a. map_of (accounts s) k = Some a \<Longrightarrow> 0 \<le> dec_val (balance a)"
    and "map_of (accounts (run s cs)) k = Some a"
  shows "0 \<le> dec_val (balance a)"
  using assms
proof (induction cs arbitrary: s)
  case Nil
  then show ?case by simp
next
  case (Cons c cs)
  show ?case
  proof (rule Cons.IH)
    show "list_all valid_call cs" using Cons.prems(1) by simp
    show "map_of (accounts (run (snd (step s c)) cs)) k = Some a"
      using Cons.prems(3) by simp
    fix k' a' assume "map_of (accounts (snd (step s c))) k' = Some a'"
    then show "0 \<le> dec_val (balance a')"
      using Cons.prems(1,2) step_nonneg [of c s k' a'] by simp
  qed
qed

subsection \<open>Balance and ledger\<close>

lemma ledger_sum_Nil: "ledger_sum [] = 0"
  by (simp add: ledger_sum_def)

lemma ledger_sum_snoc: "ledger_sum (txns @ [txn]) = ledger_sum txns + signed_amount txn"
  by (simp add: ledger_sum_def)

lemma step_error_keeps_store:
  assumes "fst (step s c) = Inl e"
  shows "snd (step s c) = s"
proof (cases c)
  case (Call_create_account nm d t1 t2)
  with assms show ?thesis
    by (simp add: create_account_def Let_def split: if_splits prod.splits)
next
  case (Call_close_account aid)
  with assms show ?thesis
    by (simp add: close_account_def split: option.splits if_splits)
next
  case (Call_deposit aid amt descr t)
  with assms show ?thesis
    by (simp add: deposit_def Let_def split: option.splits prod.splits)
next
  case (Call_withdraw aid amt descr t)
  with assms show ?thesis
    by (simp add: withdraw_def Let_def split: option.splits if_splits prod.splits)
next
  case (Call_transfer from_id to_id amt descr t)
  with assms show ?thesis
    by (simp add: transfer_error_keeps_store)
qed

lemma exact_call_updates: "exact_call s c \<Longrightarrow> fst (step s c) = Inr v \<Longrightarrow> exact_updates s c"
  by (simp add: exact_call_def)

lemma step_balanced_updates:
  assumes "valid_call c" and "exact_updates s c"
    and inv: "\<And>k a. map_of (accounts s) k = Some a \<Longrightarrow>
      dec_val (balance a) = ledger_sum (transactions a)"
    and after: "map_of (accounts (snd (step s c))) k = Some a"
  shows "dec_val (balance a) = ledger_sum (transactions a)"
proof (cases c)
  case (Call_create_account nm d t1 t2)
  with assms(1) after inv show ?thesis
    by (auto simp: create_account_accounts ledger_sum_def signed_amount_def dec_val_eq_0
        split: if_splits)
next
  case (Call_close_account aid)
  with after inv close_account_accounts [of s aid] show ?thesis
    by (auto split: if_splits)
next
  case (Call_deposit aid amt descr t)
  show ?thesis
  proof (cases "map_of (accounts s) aid")
    case None
    with Call_deposit after inv show ?thesis
      by (simp add: deposit_absent)
  next
    case (Some b)
    have "dec_val (dec_add (balance b) amt) = dec_val (balance b) + dec_val amt"
      using assms(2) Call_deposit Some by (simp add: exact_update_def dec_val_add)
    with Call_deposit after inv Some inv [OF Some] show ?thesis
      by (auto simp: deposit_present ledger_sum_snoc signed_amount_def split: if_splits)
  qed
next
  case (Call_withdraw aid amt descr t)
  show ?thesis
  proof (cases "map_of (accounts s) aid")
    case None
    with Call_withdraw after inv show ?thesis
      by (simp add: withdraw_absent)
  next
    case (Some b)
    show ?thesis
    proof (cases "dec_val (balance b) < dec_val amt")
      case True
      with Call_withdraw after inv Some show ?thesis
        by (simp add: withdraw_insufficient)
    next
      case False
      have "dec_val (dec_sub (balance b) amt) = dec_val (balance b) - dec_val amt"
        using assms(2) Call_withdraw Some by (simp add: exact_update_def dec_val_sub)
      with Call_withdraw after inv Some inv [OF Some] False show ?thesis
        by (auto simp: withdraw_sufficient ledger_sum_snoc signed_amount_def split: if_splits)
    qed
  qed
next
  case (Call_transfer from_id to_id amt descr t)
  show ?thesis
  proof (cases "fst (transfer s from_id to_id amt descr t)")
    case (Inl e)
    then have "snd (transfer s from_id to_id amt descr t) = s"
      by (rule transfer_error_keeps_store)
    with Call_transfer after inv show ?thesis
      by simp
  next
    case (Inr v)
    then obtain fa ta where fa: "map_of (accounts s) from_id = Some fa"
      and ta: "map_of (accounts s) to_id = Some ta" and ne: "from_id \<noteq> to_id"
      and enough: "\<not> dec_val (balance fa) < dec_val amt"
      by (auto simp: transfer_def dec_less_iff Let_def split: option.splits if_splits)
    have "dec_val (dec_sub (balance fa) amt) = dec_val (balance fa) - dec_val amt"
      using assms(2) Call_transfer fa by (simp add: exact_update_def dec_val_sub)
    moreover have "dec_val (dec_add (balance ta) amt) = dec_val (balance ta) + dec_val amt"
      using assms(2) Call_transfer ta by (simp add: exact_update_def dec_val_add)
    ultimately show ?thesis
      using Call_transfer after inv inv [OF fa] inv [OF ta]
        transfer_success [OF fa ta ne enough, of descr t]
      by (auto simp: ledger_sum_snoc signed_amount_def split: if_splits)
  qed
qed

lemma step_balanced:
  assumes "valid_call c" and "exact_call s c"
    and inv: "\<And>k a. map_of (accounts s) k = Some a \<Longrightarrow>
      dec_val (balance a) = ledger_sum (transactions a)"
    and after: "map_of (accounts (snd (step s c))) k = Some a"
  shows "dec_val (balance a) = ledger_sum (transactions a)"
proof (cases "fst (step s c)")
  case (Inl e)
  then have "snd (step s c) = s"
    by (rule step_error_keeps_store)
  with after inv show ?thesis
    by simp
next
  case (Inr v)
  with assms(2) have "exact_updates s c"
    by (rule exact_call_updates)
  with assms(1) show ?thesis
    using inv after by (rule step_balanced_updates)
qed

lemma run_balanced:
  assumes "list_all valid_call cs" and "exact_run s cs"
    and "\<And>k a. map_of (accounts s) k = Some a \<Longrightarrow>
      dec_val (balance a) = ledger_sum (transactions a)"
    and "map_of (accounts (run s cs)) k = Some a"
  shows "dec_val (balance a) = ledger_sum (transactions a)"
  using assms
proof (induction cs arbitrary: s)
  case Nil
  then show ?case by simp
next
  case (Cons c cs)
  show ?case
  proof (rule Cons.IH)
    show "list_all valid_call cs" using Cons.prems(1) by simp
    show "exact_run (snd (step s c)) cs" using Cons.prems(2) by simp
    show "map_of (accounts (run (snd (step s c)) cs)) k = Some a"
      using Cons.prems(4) by simp
    fix k' a' assume "map_of (accounts (snd (step s c))) k' = Some a'"
    then show "dec_val (balance a') = ledger_sum (transactions a')"
      using Cons.prems(1,2,3) step_balanced [of c s k' a'] by simp
  qed
qed

lemma run_on_account:
  assumes "map_of (accounts s) aid = Some a0" and "list_all (on_account aid) ds"
    and "exact_run s ds"
  shows "\<exists>a1. map_of (accounts (run s ds)) aid = Some a1
    \<and> dec_val (balance a1) = dec_val (balance a0) + sum_list (map net_of_reply (replies s ds))"
  using assms
proof (induction ds arbitrary: s a0)
  case Nil
  then show ?case by simp
next
  case (Cons c ds)
  from Cons.prems(2) have on: "on_account aid c" and rest: "list_all (on_account aid) ds"
    by simp_all
  from Cons.prems(3) have ex: "exact_call s c" and ex_rest: "exact_run (snd (step s c)) ds"
    by simp_all
  have "\<exists>a'. map_of (accounts (snd (step s c))) aid = Some a'
      \<and> dec_val (balance a') = dec_val (balance a0) + net_of_reply (fst (step s c))"
  proof (cases c)
    case (Call_deposit k amt descr t)
    with on have k: "k = aid" by simp
    from Call_deposit k Cons.prems(1)
    have "fst (step s c) = Inr (Deposited amt aid (dec_add (balance a0) amt))"
      by (simp add: deposit_present)
    with ex have "exact_updates s c"
      by (rule exact_call_updates)
    then have "dec_val (dec_add (balance a0) amt) = dec_val (balance a0) + dec_val amt"
      using Call_deposit k Cons.prems(1) by (simp add: exact_update_def dec_val_add)
    with Call_deposit k Cons.prems(1) show ?thesis
      by (simp add: deposit_present)
  next
    case (Call_withdraw k amt descr t)
    with on have k: "k = aid" by simp
    show ?thesis
    proof (cases "dec_val (balance a0) < dec_val amt")
      case True
      with Call_withdraw k Cons.prems(1) show ?thesis
        by (simp add: withdraw_insufficient)
    next
      case False
      from Call_withdraw k Cons.prems(1) False
      have "fst (step s c) = Inr (Withdrew amt aid (dec_sub (balance a0) amt))"
        by (simp add: withdraw_sufficient)
      with ex have "exact_updates s c"
        by (rule exact_call_updates)
      then have "dec_val (dec_sub (balance a0) amt) = dec_val (balance a0) - dec_val amt"
        using Call_withdraw k Cons.prems(1) by (simp add: exact_update_def dec_val_sub)
      with Call_withdraw k Cons.prems(1) False show ?thesis
        by (simp add: withdraw_sufficient)
    qed
  qed (use on in simp_all)
  then obtain a' where a': "map_of (accounts (snd (step s c))) aid = Some a'"
    and bal: "dec_val (balance a') = dec_val (balance a0) + net_of_reply (fst (step s c))"
    by blast
  from Cons.IH [OF a' rest ex_rest] bal show ?case
    by (auto simp: add.assoc)
qed

section \<open>Opening an account\<close>

text \<open>
  In every store \<open>create_account\<close> replies with the identifier it generated and the
  initial deposit, and registers under that identifier an account whose balance is the
  initial deposit; the transaction list of the account holds exactly one deposit
  transaction described as \<open>Initial deposit\<close> when the deposit is positive and is empty
  otherwise. In the empty store the identifier is \<open>ACC000001\<close>, and opening an account
  there with 100.0 replies with a balance of \<open>$100.00\<close>.
\<close>

lemma create_account_registers:
  "fst (create_account s nm d t1 t2) = Inr (Created (generate_account_id s) d)
    \<and> map_of (accounts (snd (create_account s nm d t1 t2))) (generate_account_id s)
        = Some \<lparr>acct_id = generate_account_id s, name = nm, balance = d,
            transactions =
              (if 0 < coefficient d
               then [\<lparr>txn_id = ''TXN'' @ format_06d (transaction_counter s + 1),
                      account_id = generate_account_id s, amount = d,
                      transaction_type = T_deposit, timestamp = t2,
                      description = ''Initial deposit''\<rparr>]
               else []),
            created_at = t1\<rparr>
    \<and> generate_account_id empty_bank = ''ACC000001''
    \<and> reply_text isoformat strftime
          (fst (create_account empty_bank ''John Doe'' (Decimal 1000 (- 1)) t1 t2))
        = ''Account created successfully. Account ID: ACC000001, Balance: $100.00''"
proof (intro conjI)
  show "fst (create_account s nm d t1 t2) = Inr (Created (generate_account_id s) d)"
    by (simp add: create_account_def Let_def split: prod.split)
  show "map_of (accounts (snd (create_account s nm d t1 t2))) (generate_account_id s)
        = Some \<lparr>acct_id = generate_account_id s, name = nm, balance = d,
            transactions =
              (if 0 < coefficient d
               then [\<lparr>txn_id = ''TXN'' @ format_06d (transaction_counter s + 1),
                      account_id = generate_account_id s, amount = d,
                      transaction_type = T_deposit, timestamp = t2,
                      description = ''Initial deposit''\<rparr>]
               else []),
            created_at = t1\<rparr>"
    by (simp add: create_account_def Let_def generate_transaction_id_def map_of_update_same)
  show "generate_account_id empty_bank = ''ACC000001''"
    by (simp add: generate_account_id_def empty_bank_def format_06d_Suc_0)
  show "reply_text isoformat strftime
          (fst (create_account empty_bank ''John Doe'' (Decimal 1000 (- 1)) t1 t2))
        = ''Account created successfully. Account ID: ACC000001, Balance: $100.00''"
    by (simp add: create_account_def Let_def generate_transaction_id_def
        generate_account_id_def empty_bank_def format_06d_Suc_0 format_2f_def rescale_def
        str_nat.simps digit_char_def reply_text_def)
qed

text \<open>
  C9 at a concrete run. Two accounts are opened and the first is closed, so the
  identifiers \<open>ACC000001\<close> and \<open>ACC000002\<close> have been handed out and \<open>ACC000002\<close>
  is the open account of \<open>B\<close>. Opening a further account does not allocate the next
  sequential identifier \<open>ACC000003\<close>: the reply carries \<open>ACC000002\<close>, under which the
  new account replaces the one of \<open>B\<close>, and nothing is stored under \<open>ACC000003\<close>.
\<close>

theorem create_account_id_in_use:
  "replies empty_bank
     [Call_create_account ''A'' (Decimal 0 (- 1)) 0 0,
      Call_create_account ''B'' (Decimal 50 (- 1)) 1 1,
      Call_close_account ''ACC000001'']
   = [Inr (Created ''ACC000001'' (Decimal 0 (- 1))),
      Inr (Created ''ACC000002'' (Decimal 50 (- 1))),
      Inr (Closed ''ACC000001'')]
   \<and> map_option name (map_of (accounts (run empty_bank
     [Call_create_account ''A'' (Decimal 0 (- 1)) 0 0,
      Call_create_account ''B'' (Decimal 50 (- 1)) 1 1,
      Call_close_account ''ACC000001''])) ''ACC000002'') = Some ''B''
   \<and> fst (create_account (run empty_bank
     [Call_create_account ''A'' (Decimal 0 (- 1)) 0 0,
      Call_create_account ''B'' (Decimal 50 (- 1)) 1 1,
      Call_close_account ''ACC000001'']) ''C'' (Decimal 0 (- 1)) 2 2)
     = Inr (Created ''ACC000002'' (Decimal 0 (- 1)))
   \<and> map_option name (map_of (accounts (snd (create_account (run empty_bank
     [Call_create_account ''A'' (Decimal 0 (- 1)) 0 0,
      Call_create_account ''B'' (Decimal 50 (- 1)) 1 1,
      Call_close_account ''ACC000001'']) ''C'' (Decimal 0 (- 1)) 2 2))) ''ACC000002'')
     = Some ''C''
   \<and> map_of (accounts (snd (create_account (run empty_bank
     [Call_create_account ''A'' (Decimal 0 (- 1)) 0 0,
      Call_create_account ''B'' (Decimal 50 (- 1)) 1 1,
      Call_close_account ''ACC000001'']) ''C'' (Decimal 0 (- 1)) 2 2))) ''ACC000003'' = None"
  by (simp add: exec_defs format_06d_digit digit_char_def dec_eq_def aligned_def)

section \<open>Closing an account\<close>

text \<open>
  C6. For an identifier present in the store, \<open>close_account\<close> succeeds exactly when
  the balance is zero. With a balance other than zero it fails with \<open>NonZeroBalance\<close>
  carrying that balance and leaves the store as it was, so the account is still there.
  After a successful close the identifier is gone and \<open>get_account_info\<close> answers
  \<open>NotFound\<close>.
\<close>

theorem close_account_spec:
  assumes "map_of (accounts s) aid = Some acct"
  shows "(fst (close_account s aid) = Inr (Closed aid) \<longleftrightarrow> dec_val (balance acct) = 0)
    \<and> (dec_val (balance acct) \<noteq> 0 \<longrightarrow>
          close_account s aid = (Inl (NonZeroBalance (balance acct)), s))
    \<and> (dec_val (balance acct) = 0 \<longrightarrow>
          map_of (accounts (snd (close_account s aid))) aid = None
          \<and> get_account_info (snd (close_account s aid)) aid = Inl (NotFound The_account aid))"
  using assms
  by (simp add: close_account_def dec_eq_zero dec_val_eq_0 get_account_info_def
      map_of_delete_same)

theorem close_account_spec_witness:
  "map_option balance
     (map_of (accounts (snd (create_account empty_bank ''A'' (Decimal 0 (- 1)) 0 0)))
        ''ACC000001'') = Some (Decimal 0 (- 1))
   \<and> dec_val (Decimal 0 (- 1)) = 0
   \<and> fst (close_account (snd (create_account empty_bank ''A'' (Decimal 0 (- 1)) 0 0))
          ''ACC000001'') = Inr (Closed ''ACC000001'')
   \<and> get_account_info
        (snd (close_account (snd (create_account empty_bank ''A'' (Decimal 0 (- 1)) 0 0))
           ''ACC000001'')) ''ACC000001'' = Inl (NotFound The_account ''ACC000001'')
   \<and> map_option balance
     (map_of (accounts (snd (create_account empty_bank ''B'' (Decimal 5 (- 2)) 0 0)))
        ''ACC000001'') = Some (Decimal 5 (- 2))
   \<and> dec_val (Decimal 5 (- 2)) \<noteq> 0
   \<and> close_account (snd (create_account empty_bank ''B'' (Decimal 5 (- 2)) 0 0)) ''ACC000001''
      = (Inl (NonZeroBalance (Decimal 5 (- 2))),
         snd (create_account empty_bank ''B'' (Decimal 5 (- 2)) 0 0))"
proof -
  let ?s = "snd (create_account empty_bank ''A'' (Decimal 0 (- 1)) 0 0)"
  let ?a = "\<lparr>acct_id = ''ACC000001'', name = ''A'', balance = Decimal 0 (- 1),
         transactions = [], created_at = 0\<rparr>"
  let ?t = "snd (create_account empty_bank ''B'' (Decimal 5 (- 2)) 0 0)"
  let ?b = "\<lparr>acct_id = ''ACC000001'', name = ''B'', balance = Decimal 5 (- 2),
      transactions =
        [\<lparr>txn_id = ''TXN000001'', account_id = ''ACC000001'', amount = Decimal 5 (- 2),
          transaction_type = T_deposit, timestamp = 0, description = ''Initial deposit''\<rparr>],
      created_at = 0\<rparr>"
  have a: "map_of (accounts ?s) ''ACC000001'' = Some ?a"
    by (simp add: exec_defs format_06d_digit digit_char_def)
  have b: "map_of (accounts ?t) ''ACC000001'' = Some ?b"
    by (simp add: exec_defs format_06d_digit digit_char_def)
  have zero: "dec_val (balance ?a) = 0" and nonzero: "dec_val (balance ?b) \<noteq> 0"
    by (simp_all add: dec_val_eq_0)
  from close_account_spec [OF a] close_account_spec [OF b] a b zero nonzero show ?thesis
    by simp
qed

section \<open>Transfers that fail\<close>

text \<open>
  C3. \<open>transfer\<close> checks in this order: an absent source or an absent destination
  gives \<open>NotFound\<close>; with both present, equal identifiers give \<open>SameAccount\<close>;
  with two distinct accounts, a source balance below the amount gives
  \<open>InsufficientFunds\<close> carrying that balance. Each of these replies comes with the
  store exactly as it was, and so does every other failure: no balance, no transaction
  list and no counter has changed.
\<close>

theorem transfer_failures:
  "(map_of (accounts s) from_id = None \<longrightarrow>
      transfer s from_id to_id amt descr now = (Inl (NotFound Source from_id), s))
   \<and> (map_of (accounts s) from_id \<noteq> None \<and> map_of (accounts s) to_id = None \<longrightarrow>
      transfer s from_id to_id amt descr now = (Inl (NotFound Destination to_id), s))
   \<and> (map_of (accounts s) from_id \<noteq> None \<and> map_of (accounts s) to_id \<noteq> None
        \<and> from_id = to_id \<longrightarrow>
      transfer s from_id to_id amt descr now = (Inl SameAccount, s))
   \<and> (map_of (accounts s) from_id = Some from_account \<and> map_of (accounts s) to_id \<noteq> None
        \<and> from_id \<noteq> to_id \<and> dec_val (balance from_account) < dec_val amt \<longrightarrow>
      transfer s from_id to_id amt descr now
        = (Inl (InsufficientFunds (balance from_account)), s))
   \<and> (\<forall>e. fst (transfer s from_id to_id amt descr now) = Inl e \<longrightarrow>
        snd (transfer s from_id to_id amt descr now) = s)"
  by (auto simp: transfer_def dec_less_iff Let_def split: option.splits prod.splits)

theorem transfer_failures_witness:
  "map_option balance (map_of (accounts (run empty_bank
      [Call_create_account ''A'' (Decimal 100 (- 1)) 0 0,
       Call_create_account ''B'' (Decimal 0 (- 1)) 1 1])) ''ACC000001'')
     = Some (Decimal 100 (- 1))
   \<and> map_option balance (map_of (accounts (run empty_bank
      [Call_create_account ''A'' (Decimal 100 (- 1)) 0 0,
       Call_create_account ''B'' (Decimal 0 (- 1)) 1 1])) ''ACC000002'')
     = Some (Decimal 0 (- 1))
   \<and> map_of (accounts (run empty_bank
      [Call_create_account ''A'' (Decimal 100 (- 1)) 0 0,
       Call_create_account ''B'' (Decimal 0 (- 1)) 1 1])) ''ACC000009'' = None
   \<and> fst (transfer (run empty_bank
      [Call_create_account ''A'' (Decimal 100 (- 1)) 0 0,
       Call_create_account ''B'' (Decimal 0 (- 1)) 1 1])
        ''ACC000009'' ''ACC000002'' (Decimal 500 (- 1)) ''Transfer'' 2)
      = Inl (NotFound Source ''ACC000009'')
   \<and> fst (transfer (run empty_bank
      [Call_create_account ''A'' (Decimal 100 (- 1)) 0 0,
       Call_create_account ''B'' (Decimal 0 (- 1)) 1 1])
        ''ACC000001'' ''ACC000009'' (Decimal 500 (- 1)) ''Transfer'' 2)
      = Inl (NotFound Destination ''ACC000009'')
   \<and> fst (transfer (run empty_bank
      [Call_create_account ''A'' (Decimal 100 (- 1)) 0 0,
       Call_create_account ''B'' (Decimal 0 (- 1)) 1 1])
        ''ACC000001'' ''ACC000001'' (Decimal 500 (- 1)) ''Transfer'' 2)
      = Inl SameAccount
   \<and> dec_val (Decimal 100 (- 1)) < dec_val (Decimal 500 (- 1))
   \<and> transfer (run empty_bank
      [Call_create_account ''A'' (Decimal 100 (- 1)) 0 0,
       Call_create_account ''B'' (Decimal 0 (- 1)) 1 1])
        ''ACC000001'' ''ACC000002'' (Decimal 500 (- 1)) ''Transfer'' 2
      = (Inl (InsufficientFunds (Decimal 100 (- 1))),
         run empty_bank
           [Call_create_account ''A'' (Decimal 100 (- 1)) 0 0,
            Call_create_account ''B'' (Decimal 0 (- 1)) 1 1])"
proof -
  let ?s = "run empty_bank
      [Call_create_account ''A'' (Decimal 100 (- 1)) 0 0,
       Call_create_account ''B'' (Decimal 0 (- 1)) 1 1]"
  let ?a = "\<lparr>acct_id = ''ACC000001'', name = ''A'', balance = Decimal 100 (- 1),
      transactions =
        [\<lparr>txn_id = ''TXN000001'', account_id = ''ACC000001'', amount = Decimal 100 (- 1),
          transaction_type = T_deposit, timestamp = 0, description = ''Initial deposit''\<rparr>],
      created_at = 0\<rparr>"
  let ?b = "\<lparr>acct_id = ''ACC000002'', name = ''B'', balance = Decimal 0 (- 1),
      transactions = [], created_at = 1\<rparr>"
  have a: "map_of (accounts ?s) ''ACC000001'' = Some ?a"
    by (simp add: exec_defs format_06d_digit digit_char_def)
  have b: "map_of (accounts ?s) ''ACC000002'' = Some ?b"
    by (simp add: exec_defs format_06d_digit digit_char_def)
  have none: "map_of (accounts ?s) ''ACC000009'' = None"
    by (simp add: exec_defs format_06d_digit digit_char_def)
  have less: "dec_val (balance ?a) < dec_val (Decimal 500 (- 1))"
    by (simp add: dec_less_iff [symmetric] dec_less_def aligned_def)
  have source: "fst (transfer ?s ''ACC000009'' ''ACC000002'' (Decimal 500 (- 1)) ''Transfer'' 2)
      = Inl (NotFound Source ''ACC000009'')"
    using none
      transfer_failures [where s = ?s and from_id = "''ACC000009''" and to_id = "''ACC000002''"
        and amt = "Decimal 500 (- 1)" and descr = "''Transfer''" and now = 2]
    by simp
  have destination:
    "fst (transfer ?s ''ACC000001'' ''ACC000009'' (Decimal 500 (- 1)) ''Transfer'' 2)
      = Inl (NotFound Destination ''ACC000009'')"
    using a none
      transfer_failures [where s = ?s and from_id = "''ACC000001''" and to_id = "''ACC000009''"
        and amt = "Decimal 500 (- 1)" and descr = "''Transfer''" and now = 2]
    by simp
  have same: "fst (transfer ?s ''ACC000001'' ''ACC000001'' (Decimal 500 (- 1)) ''Transfer'' 2)
      = Inl SameAccount"
    using a
      transfer_failures [where s = ?s and from_id = "''ACC000001''" and to_id = "''ACC000001''"
        and amt = "Decimal 500 (- 1)" and descr = "''Transfer''" and now = 2]
    by simp
  have short: "transfer ?s ''ACC000001'' ''ACC000002'' (Decimal 500 (- 1)) ''Transfer'' 2
      = (Inl (InsufficientFunds (Decimal 100 (- 1))), ?s)"
    using a b less
      transfer_failures [where s = ?s and from_id = "''ACC000001''" and to_id = "''ACC000002''"
        and amt = "Decimal 500 (- 1)" and descr = "''Transfer''" and now = 2
        and from_account = ?a]
    by simp
  from a b none less source destination same short show ?thesis
    by simp
qed

section \<open>Transaction history\<close>

text \<open>
  C8, as the code has it. For an existing account and a limit of at least 1: when the
  account has no transactions the reply is the \<open>NoTransactions\<close> notice, with no
  balance line; otherwise the reply is the heading, a rule, one line for each of the
  \<open>limit\<close> most recently stored transactions, newest first, a rule, and last the
  line \<open>Current Balance: $\<close> with the current balance. A transaction line shows
  \<open>+\<close> for a deposit or incoming transfer and \<open>-\<close> for a withdrawal or outgoing
  transfer.
\<close>

theorem transaction_history_spec:
  assumes "map_of (accounts s) aid = Some acct" and "1 \<le> limit"
  shows "(transactions acct = [] \<longrightarrow>
            get_transaction_history s aid limit = Inr (NoTransactions aid))
    \<and> (transactions acct \<noteq> [] \<longrightarrow>
          reply_text isoformat strftime (get_transaction_history s aid limit)
          = join_lines
              ([''Transaction History for '' @ aid @ '':'', replicate 50 (CHR ''-'')]
               @ map (history_line strftime) (take (nat limit) (rev (transactions acct)))
               @ [replicate 50 (CHR ''-''),
                  ''Current Balance: $'' @ format_2f (balance acct)]))
    \<and> history_line strftime txn
        = ''  '' @ strftime (timestamp txn) @ '' | ''
          @ (if transaction_type txn = T_deposit \<or> transaction_type txn = T_transfer_in
             then ''+'' else ''-'')
          @ ''$'' @ format_2f (amount txn) @ '' | '' @ description txn"
proof (intro conjI impI)
  assume "transactions acct = []"
  with assms show "get_transaction_history s aid limit = Inr (NoTransactions aid)"
    by (simp add: get_transaction_history_def py_slice_from_def)
next
  assume ne: "transactions acct \<noteq> []"
  with assms have "py_slice_from (transactions acct) (- limit) \<noteq> []"
    by (simp add: py_slice_last_nonempty)
  with assms show "reply_text isoformat strftime (get_transaction_history s aid limit)
          = join_lines
              ([''Transaction History for '' @ aid @ '':'', replicate 50 (CHR ''-'')]
               @ map (history_line strftime) (take (nat limit) (rev (transactions acct)))
               @ [replicate 50 (CHR ''-''),
                  ''Current Balance: $'' @ format_2f (balance acct)])"
    by (simp add: get_transaction_history_def Let_def reply_text_def history_lines_def
        rev_slice_last)
next
  show "history_line strftime txn
        = ''  '' @ strftime (timestamp txn) @ '' | ''
          @ (if transaction_type txn = T_deposit \<or> transaction_type txn = T_transfer_in
             then ''+'' else ''-'')
          @ ''$'' @ format_2f (amount txn) @ '' | '' @ description txn"
    by (simp add: history_line_def sign_of_def)
qed

theorem transaction_history_spec_witness:
  "map_option balance (map_of (accounts (run empty_bank
     [Call_create_account ''A'' (Decimal 100 (- 1)) 0 0,
      Call_deposit ''ACC000001'' (Decimal 25 (- 2)) ''Deposit'' 1,
      Call_withdraw ''ACC000001'' (Decimal 5 0) ''Withdrawal'' 2])) ''ACC000001'')
     = Some (Decimal 525 (- 2))
   \<and> (1::int) \<le> 2
   \<and> reply_text str_nat str_nat
        (get_transaction_history (run empty_bank
           [Call_create_account ''A'' (Decimal 100 (- 1)) 0 0,
            Call_deposit ''ACC000001'' (Decimal 25 (- 2)) ''Deposit'' 1,
            Call_withdraw ''ACC000001'' (Decimal 5 0) ''Withdrawal'' 2]) ''ACC000001'' 2)
      = join_lines
          [''Transaction History for ACC000001:'',
           ''--------------------------------------------------'',
           ''  2 | -$5.00 | Withdrawal'',
           ''  1 | +$0.25 | Deposit'',
           ''--------------------------------------------------'',
           ''Current Balance: $5.25'']
   \<and> map_option transactions
       (map_of (accounts (snd (create_account empty_bank ''B'' (Decimal 0 (- 1)) 0 0)))
          ''ACC000001'') = Some []
   \<and> get_transaction_history (snd (create_account empty_bank ''B'' (Decimal 0 (- 1)) 0 0))
        ''ACC000001'' 2 = Inr (NoTransactions ''ACC000001'')"
proof -
  let ?cs = "[Call_create_account ''A'' (Decimal 100 (- 1)) 0 0,
      Call_deposit ''ACC000001'' (Decimal 25 (- 2)) ''Deposit'' 1,
      Call_withdraw ''ACC000001'' (Decimal 5 0) ''Withdrawal'' 2]"
  let ?acct = "\<lparr>acct_id = ''ACC000001'', name = ''A'', balance = Decimal 525 (- 2),
        transactions =
          [\<lparr>txn_id = ''TXN000001'', account_id = ''ACC000001'', amount = Decimal 100 (- 1),
           transaction_type = T_deposit, timestamp = 0, description = ''Initial deposit''\<rparr>,
          \<lparr>txn_id = ''TXN000002'', account_id = ''ACC000001'', amount = Decimal 25 (- 2),
           transaction_type = T_deposit, timestamp = 1, description = ''Deposit''\<rparr>,
          \<lparr>txn_id = ''TXN000003'', account_id = ''ACC000001'', amount = Decimal 5 0,
           transaction_type = T_withdrawal, timestamp = 2, description = ''Withdrawal''\<rparr>],
        created_at = 0\<rparr>"
  have present: "map_of (accounts (run empty_bank ?cs)) ''ACC000001'' = Some ?acct"
    by (simp add: exec_defs format_06d_digit digit_char_def dec_defs)
  have limit: "(1::int) \<le> 2"
    by simp
  have newest: "take (nat 2) (rev (transactions ?acct))
      = [\<lparr>txn_id = ''TXN000003'', account_id = ''ACC000001'', amount = Decimal 5 0,
           transaction_type = T_withdrawal, timestamp = 2, description = ''Withdrawal''\<rparr>,
         \<lparr>txn_id = ''TXN000002'', account_id = ''ACC000001'', amount = Decimal 25 (- 2),
           transaction_type = T_deposit, timestamp = 1, description = ''Deposit''\<rparr>]"
    by (simp add: eval_nat_numeral)
  have lines: "map (history_line str_nat) (take (nat 2) (rev (transactions ?acct)))
      = [''  2 | -$5.00 | Withdrawal'', ''  1 | +$0.25 | Deposit'']"
    unfolding newest by (simp add: history_line_def sign_of_def format_defs)
  have bal: "format_2f (balance ?acct) = ''5.25''"
    by (simp add: format_defs)
  have rule: "replicate 50 (CHR ''-'') = ''--------------------------------------------------''"
    by (simp add: eval_nat_numeral)
  from transaction_history_spec [OF present limit, where isoformat = str_nat
      and strftime = str_nat and txn = "hd (transactions ?acct)"]
  have "reply_text str_nat str_nat
          (get_transaction_history (run empty_bank ?cs) ''ACC000001'' 2)
        = join_lines
            ([''Transaction History for '' @ ''ACC000001'' @ '':'', replicate 50 (CHR ''-'')]
             @ map (history_line str_nat) (take (nat 2) (rev (transactions ?acct)))
             @ [replicate 50 (CHR ''-''),
                ''Current Balance: $'' @ format_2f (balance ?acct)])"
    by simp
  then have full: "reply_text str_nat str_nat
          (get_transaction_history (run empty_bank ?cs) ''ACC000001'' 2)
        = join_lines
          [''Transaction History for ACC000001:'',
           ''--------------------------------------------------'',
           ''  2 | -$5.00 | Withdrawal'',
           ''  1 | +$0.25 | Deposit'',
           ''--------------------------------------------------'',
           ''Current Balance: $5.25'']"
    unfolding lines bal rule by simp
  let ?t = "snd (create_account empty_bank ''B'' (Decimal 0 (- 1)) 0 0)"
  let ?b = "\<lparr>acct_id = ''ACC000001'', name = ''B'', balance = Decimal 0 (- 1),
      transactions = [], created_at = 0\<rparr>"
  have fresh: "map_of (accounts ?t) ''ACC000001'' = Some ?b"
    by (simp add: exec_defs format_06d_digit digit_char_def)
  from transaction_history_spec [OF fresh limit, where isoformat = str_nat
      and strftime = str_nat and txn = "hd (transactions ?acct)"]
  have none: "get_transaction_history ?t ''ACC000001'' 2 = Inr (NoTransactions ''ACC000001'')"
    by simp
  from present full fresh none show ?thesis
    by simp
qed

text \<open>
  C8 as stated fails for an account opened without a deposit: the reply has no summary
  line.
\<close>

theorem transaction_history_counterexample:
  "map_of (accounts (snd (create_account empty_bank ''A'' (Decimal 0 (- 1)) 0 0))) ''ACC000001''
     = Some \<lparr>acct_id = ''ACC000001'', name = ''A'', balance = Decimal 0 (- 1),
         transactions = [], created_at = 0\<rparr>
   \<and> get_transaction_history (snd (create_account empty_bank ''A'' (Decimal 0 (- 1)) 0 0))
        ''ACC000001'' 10 = Inr (NoTransactions ''ACC000001'')
   \<and> reply_text str_nat str_nat
        (get_transaction_history (snd (create_account empty_bank ''A'' (Decimal 0 (- 1)) 0 0))
           ''ACC000001'' 10)
      = ''No transactions found for account ACC000001.''"
  by (simp add: exec_defs format_06d_digit digit_char_def py_slice_from_def reply_text_def)

section \<open>Decimals as strings\<close>

lemma digit_char_cases:
  assumes "n < 10"
  shows "digit_char n \<noteq> CHR ''.'' \<and> (digit_char n = CHR ''0'' \<longleftrightarrow> n = 0)"
proof -
  from assms have "n \<in> set [0..<10]"
    by simp
  then show ?thesis
    unfolding digit_char_def by (simp add: upt_rec) auto
qed

lemma str_nat_nonempty: "str_nat n \<noteq> []"
  by (subst str_nat.simps) simp

lemma str_nat_no_point: "CHR ''.'' \<notin> set (str_nat n)"
proof (induction n rule: str_nat.induct)
  case (1 n)
  show ?case
  proof (cases "n < 10")
    case True
    then show ?thesis
      using digit_char_cases [of n] by (subst str_nat.simps) auto
  next
    case False
    then have "n mod 10 < 10" by simp
    with False 1 digit_char_cases [of "n mod 10"] show ?thesis
      by (subst str_nat.simps) auto
  qed
qed

lemma str_nat_0: "str_nat 0 = ''0''"
  by (subst str_nat.simps) (simp add: digit_char_def)

lemma hd_str_nat: "hd (str_nat n) = CHR ''0'' \<longleftrightarrow> n = 0"
proof (induction n rule: str_nat.induct)
  case (1 n)
  show ?case
  proof (cases "n < 10")
    case True
    then show ?thesis
      using digit_char_cases [of n] by (subst str_nat.simps) simp
  next
    case False
    then have "n div 10 \<noteq> 0" by simp
    with False 1 show ?thesis
      by (subst str_nat.simps) (simp add: str_nat_nonempty)
  qed
qed

lemma str_nat_leading_zero:
  assumes "str_nat n = CHR ''0'' # rest"
  shows "n = 0 \<and> rest = []"
proof -
  from assms have "hd (str_nat n) = CHR ''0''" by simp
  then have "n = 0" by (simp add: hd_str_nat)
  with assms show ?thesis by (simp add: str_nat_0)
qed

lemma str_decimal_zero_two_places:
  assumes "str_decimal d = ''0.00''"
  shows "d = Decimal 0 (- 2)"
proof -
  define ds where "ds = str_nat (nat \<bar>coefficient d\<bar>)"
  define leftdigits where "leftdigits = exponent d + int (length ds)"
  define dotplace where
    "dotplace = (if exponent d \<le> 0 \<and> - 6 < leftdigits then leftdigits else 1)"
  define intpart where "intpart = (if dotplace \<le> 0 then ''0''
                     else if int (length ds) \<le> dotplace
                     then ds @ replicate (nat (dotplace - int (length ds))) (CHR ''0'')
                     else take (nat dotplace) ds)"
  define fracpart where
    "fracpart = (if dotplace \<le> 0 then ''.'' @ replicate (nat (- dotplace)) (CHR ''0'') @ ds
                      else if int (length ds) \<le> dotplace then []
                      else ''.'' @ drop (nat dotplace) ds)"
  define ex where "ex = (if leftdigits = dotplace then []
                else ''E'' @ (if leftdigits - dotplace < 0 then ''-'' else ''+'')
                     @ str_nat (nat \<bar>leftdigits - dotplace\<bar>))"
  have str: "str_decimal d
      = (if coefficient d < 0 then ''-'' else []) @ intpart @ fracpart @ ex"
    by (simp add: str_decimal_def Let_def ds_def leftdigits_def dotplace_def intpart_def
        fracpart_def ex_def)
  have ne: "ds \<noteq> []" and len: "1 \<le> length ds"
    using str_nat_nonempty [of "nat \<bar>coefficient d\<bar>"]
    by (simp_all add: ds_def Suc_le_eq)
  have nonneg: "\<not> coefficient d < 0"
    using assms str by (auto split: if_splits)
  with assms str have eq: "intpart @ fracpart @ ex = ''0.00''"
    by simp
  have ex_nil: "ex = []"
  proof (rule ccontr)
    assume "ex \<noteq> []"
    then have "CHR ''E'' \<in> set ex"
      by (auto simp: ex_def split: if_splits)
    then have "CHR ''E'' \<in> set (intpart @ fracpart @ ex)"
      by simp
    with eq show False by simp
  qed
  then have left: "leftdigits = dotplace"
    by (auto simp: ex_def split: if_splits)
  have plain: "exponent d \<le> 0"
  proof (rule ccontr)
    assume "\<not> exponent d \<le> 0"
    then have "dotplace = 1" and "1 < leftdigits"
      using len by (simp_all add: dotplace_def leftdigits_def)
    with left show False by simp
  qed
  from eq ex_nil have eq2: "intpart @ fracpart = ''0.00''"
    by simp
  show ?thesis
  proof (cases "dotplace \<le> 0")
    case True
    with eq2 have tail: "replicate (nat (- dotplace)) (CHR ''0'') @ ds = ''00''"
      by (simp add: intpart_def fracpart_def)
    then have "length (replicate (nat (- dotplace)) (CHR ''0'') @ ds) = 2"
      by simp
    then have k: "nat (- dotplace) + length ds = 2"
      by simp
    show ?thesis
    proof (cases "nat (- dotplace) = 0")
      case True
      with tail have "ds = ''00''" by simp
      then have "str_nat (nat \<bar>coefficient d\<bar>) = CHR ''0'' # ''0''"
        by (simp add: ds_def)
      from str_nat_leading_zero [OF this] show ?thesis by simp
    next
      case False
      with k len have k1: "nat (- dotplace) = 1" and l1: "length ds = 1"
        by simp_all
      with tail have "ds = ''0''" by simp
      then have "str_nat (nat \<bar>coefficient d\<bar>) = CHR ''0'' # []"
        by (simp add: ds_def)
      from str_nat_leading_zero [OF this] have c: "coefficient d = 0"
        by simp
      from k1 have "dotplace = - 1" by simp
      with left l1 have "exponent d = - 2"
        by (simp add: leftdigits_def)
      with c show ?thesis
        by (cases d) simp
    qed
  next
    case False
    show ?thesis
    proof (cases "int (length ds) \<le> dotplace")
      case True
      with False eq2 have "ds @ replicate (nat (dotplace - int (length ds))) (CHR ''0'') = ''0.00''"
        by (simp add: intpart_def fracpart_def)
      then have "CHR ''.'' \<in> set (ds @ replicate (nat (dotplace - int (length ds))) (CHR ''0''))"
        by simp
      then have "CHR ''.'' \<in> set ds"
        by auto
      then show ?thesis
        using str_nat_no_point [of "nat \<bar>coefficient d\<bar>"] by (simp add: ds_def)
    next
      case long: False
      with False eq2 have e3: "take (nat dotplace) ds @ ''.'' @ drop (nat dotplace) ds = ''0.00''"
        by (simp add: intpart_def fracpart_def)
      from False have pos: "0 < nat dotplace" by simp
      obtain c cs where ds: "ds = c # cs"
        using ne by (cases ds) auto
      from pos obtain m where m: "nat dotplace = Suc m"
        by (cases "nat dotplace") auto
      from e3 ds m have "c = CHR ''0''"
        by simp
      with ds have "str_nat (nat \<bar>coefficient d\<bar>) = CHR ''0'' # cs"
        by (simp add: ds_def)
      from str_nat_leading_zero [OF this] ds have "length ds = 1"
        by simp
      with long False show ?thesis
        by simp
    qed
  qed
qed

section \<open>The balance resource\<close>

text \<open>
  C10, as the code has it. For an identifier absent from the store the balance resource
  answers \<open>0.00\<close>; for a present account it answers \<open>str\<close> of the balance, which is
  \<open>0.00\<close> exactly when the balance is the decimal zero with two places. So an unknown
  identifier looks like an account holding \<open>Decimal('0.00')\<close>, and unlike an account
  holding zero in any other form.
\<close>

theorem balance_resource_spec:
  "(map_of (accounts s) aid = None \<longrightarrow> get_balance_resource s aid = ''0.00'')
   \<and> (map_of (accounts s) aid = Some acct \<longrightarrow>
        get_balance_resource s aid = str_decimal (balance acct)
        \<and> (get_balance_resource s aid = ''0.00'' \<longleftrightarrow> balance acct = Decimal 0 (- 2)))"
proof -
  have "str_decimal (Decimal 0 (- 2)) = ''0.00''"
    by (simp add: format_defs)
  then show ?thesis
    by (auto simp: get_balance_resource_def dest: str_decimal_zero_two_places)
qed

theorem balance_resource_spec_witness:
  "map_of (accounts (snd (create_account empty_bank ''A'' (Decimal 1000 (- 1)) 0 0))) ''ACC000002''
     = None
   \<and> get_balance_resource (snd (create_account empty_bank ''A'' (Decimal 1000 (- 1)) 0 0))
        ''ACC000002'' = ''0.00''
   \<and> map_option balance
       (map_of (accounts (snd (create_account empty_bank ''A'' (Decimal 1000 (- 1)) 0 0)))
          ''ACC000001'') = Some (Decimal 1000 (- 1))
   \<and> get_balance_resource (snd (create_account empty_bank ''A'' (Decimal 1000 (- 1)) 0 0))
        ''ACC000001'' = ''100.0''
   \<and> get_balance_resource
        \<lparr>accounts = [(''ACC000001'', \<lparr>acct_id = ''ACC000001'', name = ''A'',
            balance = Decimal 0 (- 2), transactions = [], created_at = 0\<rparr>)],
         transaction_counter = 0\<rparr> ''ACC000001'' = ''0.00''"
proof -
  let ?s = "snd (create_account empty_bank ''A'' (Decimal 1000 (- 1)) 0 0)"
  let ?a = "\<lparr>acct_id = ''ACC000001'', name = ''A'', balance = Decimal 1000 (- 1),
         transactions =
           [\<lparr>txn_id = ''TXN000001'', account_id = ''ACC000001'', amount = Decimal 1000 (- 1),
             transaction_type = T_deposit, timestamp = 0, description = ''Initial deposit''\<rparr>],
         created_at = 0\<rparr>"
  let ?z = "\<lparr>acct_id = ''ACC000001'', name = ''A'',
            balance = Decimal 0 (- 2), transactions = [], created_at = 0\<rparr>"
  let ?t = "\<lparr>accounts = [(''ACC000001'', ?z)], transaction_counter = 0\<rparr>"
  have absent: "map_of (accounts ?s) ''ACC000002'' = None"
    by (simp add: exec_defs format_06d_digit digit_char_def)
  have present: "map_of (accounts ?s) ''ACC000001'' = Some ?a"
    by (simp add: exec_defs format_06d_digit digit_char_def)
  have zero: "map_of (accounts ?t) ''ACC000001'' = Some ?z \<and> balance ?z = Decimal 0 (- 2)"
    by simp
  have str: "str_decimal (Decimal 1000 (- 1)) = ''100.0''"
    by (simp add: format_defs)
  from balance_resource_spec [where s = ?s and aid = "''ACC000002''"] absent
  have one: "get_balance_resource ?s ''ACC000002'' = ''0.00''"
    by simp
  from balance_resource_spec [where s = ?s and aid = "''ACC000001''" and acct = ?a] present
  have two: "get_balance_resource ?s ''ACC000001'' = ''100.0''"
    by (simp add: str)
  from balance_resource_spec [where s = ?t and aid = "''ACC000001''" and acct = ?z] zero
  have three: "get_balance_resource ?t ''ACC000001'' = ''0.00''"
    by blast
  from absent present one two three show ?thesis
    by simp
qed

text \<open>
  C10 as stated fails for an account opened without a deposit: its balance is zero,
  held as \<open>Decimal('0.0')\<close>, and the resource answers \<open>0.0\<close>, which tells it apart
  from an unknown identifier.
\<close>

theorem balance_resource_counterexample:
  "map_of (accounts (snd (create_account empty_bank ''A'' (Decimal 0 (- 1)) 0 0))) ''ACC000001''
     = Some \<lparr>acct_id = ''ACC000001'', name = ''A'', balance = Decimal 0 (- 1),
         transactions = [], created_at = 0\<rparr>
   \<and> dec_val (Decimal 0 (- 1)) = 0
   \<and> map_of (accounts (snd (create_account empty_bank ''A'' (Decimal 0 (- 1)) 0 0))) ''ACC000002''
     = None
   \<and> get_balance_resource (snd (create_account empty_bank ''A'' (Decimal 0 (- 1)) 0 0))
        ''ACC000001'' = ''0.0''
   \<and> get_balance_resource (snd (create_account empty_bank ''A'' (Decimal 0 (- 1)) 0 0))
        ''ACC000002'' = ''0.00''"
  by (simp add: exec_defs format_defs dec_val_def)

section \<open>Identifiers\<close>

text \<open>
  C4 at a concrete run: two accounts are opened, the first is closed, a third is opened.
  The third reply carries the identifier \<open>ACC000002\<close> that the second account was
  given, and the second account is overwritten: only the third is left in the store.
\<close>

theorem account_id_reissued:
  "replies empty_bank
     [Call_create_account ''A'' (Decimal 0 (- 1)) 0 0,
      Call_create_account ''B'' (Decimal 50 (- 1)) 1 1,
      Call_close_account ''ACC000001'',
      Call_create_account ''C'' (Decimal 0 (- 1)) 2 2]
   = [Inr (Created ''ACC000001'' (Decimal 0 (- 1))),
      Inr (Created ''ACC000002'' (Decimal 50 (- 1))),
      Inr (Closed ''ACC000001''),
      Inr (Created ''ACC000002'' (Decimal 0 (- 1)))]
   \<and> map (name \<circ> snd) (accounts (run empty_bank
     [Call_create_account ''A'' (Decimal 0 (- 1)) 0 0,
      Call_create_account ''B'' (Decimal 50 (- 1)) 1 1,
      Call_close_account ''ACC000001'',
      Call_create_account ''C'' (Decimal 0 (- 1)) 2 2])) = [''C'']"
  by (simp add: exec_defs format_defs dec_eq_def aligned_def)

section \<open>Balances stay non-negative\<close>

text \<open>
  C7. Starting from the empty store, after any sequence of calls with validated arguments
  (a non-negative initial deposit, positive amounts) every account in the store has a
  balance that is not below zero. The sequence is arbitrary, so this holds after each
  single call of it.
\<close>

theorem balance_never_negative:
  assumes "list_all valid_call cs"
    and "map_of (accounts (run empty_bank cs)) aid = Some acct"
  shows "0 \<le> dec_val (balance acct) \<and> \<not> dec_less (balance acct) (Decimal 0 0)"
proof -
  have "0 \<le> dec_val (balance acct)"
    using assms(1) _ assms(2) by (rule run_nonneg) (simp add: empty_bank_def)
  then show ?thesis
    by (simp add: dec_less_iff dec_val_def)
qed

theorem balance_never_negative_witness:
  "list_all valid_call
     [Call_create_account ''A'' (Decimal 100 (- 1)) 0 0,
      Call_withdraw ''ACC000001'' (Decimal 25 (- 2)) ''Withdrawal'' 1,
      Call_withdraw ''ACC000001'' (Decimal 500 (- 1)) ''Withdrawal'' 2]
   \<and> map_option balance (map_of (accounts (run empty_bank
     [Call_create_account ''A'' (Decimal 100 (- 1)) 0 0,
      Call_withdraw ''ACC000001'' (Decimal 25 (- 2)) ''Withdrawal'' 1,
      Call_withdraw ''ACC000001'' (Decimal 500 (- 1)) ''Withdrawal'' 2])) ''ACC000001'')
     = Some (Decimal 975 (- 2))
   \<and> 0 \<le> dec_val (Decimal 975 (- 2))"
proof -
  let ?cs = "[Call_create_account ''A'' (Decimal 100 (- 1)) 0 0,
      Call_withdraw ''ACC000001'' (Decimal 25 (- 2)) ''Withdrawal'' 1,
      Call_withdraw ''ACC000001'' (Decimal 500 (- 1)) ''Withdrawal'' 2]"
  have valid: "list_all valid_call ?cs"
    by simp
  have present: "map_of (accounts (run empty_bank ?cs)) ''ACC000001''
    = Some \<lparr>acct_id = ''ACC000001'', name = ''A'', balance = Decimal 975 (- 2),
        transactions =
          [\<lparr>txn_id = ''TXN000001'', account_id = ''ACC000001'', amount = Decimal 100 (- 1),
            transaction_type = T_deposit, timestamp = 0, description = ''Initial deposit''\<rparr>,
           \<lparr>txn_id = ''TXN000002'', account_id = ''ACC000001'', amount = Decimal 25 (- 2),
            transaction_type = T_withdrawal, timestamp = 1, description = ''Withdrawal''\<rparr>],
        created_at = 0\<rparr>"
    by (simp add: exec_defs format_06d_digit digit_char_def dec_defs)
  show ?thesis
    using valid present balance_never_negative [OF valid present] by simp
qed

section \<open>Balance and ledger agree\<close>

text \<open>
  C1, as the code has it. Take any sequence of calls with validated arguments, run from
  the empty store, in which no balance update that takes place had to be rounded to the
  28 digits of the decimal context; a call that is refused updates nothing and is under no
  condition. Then for every account in the store the balance is exactly the signed
  sum of its stored transactions: deposits and incoming transfers counted positive,
  withdrawals and outgoing transfers negative. In particular, for an account opened with
  the deposit \<open>d\<close> and then subject to deposits and withdrawals only, again without
  rounding where a balance is updated, the final balance is \<open>d\<close> plus the amounts of
  the deposits minus the amounts of the withdrawals that went through.
\<close>

theorem balance_is_ledger_sum:
  "(list_all valid_call cs \<and> exact_run empty_bank cs
      \<and> map_of (accounts (run empty_bank cs)) aid = Some acct
    \<longrightarrow> dec_val (balance acct) = ledger_sum (transactions acct))
   \<and> (0 \<le> coefficient d \<and> list_all (on_account (generate_account_id s)) ds
        \<and> exact_run (snd (create_account s nm d t1 t2)) ds
    \<longrightarrow> (\<exists>a1. map_of (accounts (run (snd (create_account s nm d t1 t2)) ds))
                (generate_account_id s) = Some a1
             \<and> dec_val (balance a1)
               = dec_val d
                 + sum_list (map net_of_reply (replies (snd (create_account s nm d t1 t2)) ds))))"
proof (intro conjI impI)
  assume "list_all valid_call cs \<and> exact_run empty_bank cs
      \<and> map_of (accounts (run empty_bank cs)) aid = Some acct"
  then have valid: "list_all valid_call cs" and exact: "exact_run empty_bank cs"
    and present: "map_of (accounts (run empty_bank cs)) aid = Some acct"
    by simp_all
  show "dec_val (balance acct) = ledger_sum (transactions acct)"
    using valid exact _ present by (rule run_balanced) (simp add: empty_bank_def)
next
  let ?s = "snd (create_account s nm d t1 t2)"
  assume "0 \<le> coefficient d \<and> list_all (on_account (generate_account_id s)) ds
        \<and> exact_run ?s ds"
  then have on: "list_all (on_account (generate_account_id s)) ds" and exact: "exact_run ?s ds"
    by simp_all
  obtain a0 where a0: "map_of (accounts ?s) (generate_account_id s) = Some a0"
    and bal: "balance a0 = d"
    by (simp add: create_account_accounts)
  from run_on_account [OF a0 on exact] bal
  show "\<exists>a1. map_of (accounts (run ?s ds)) (generate_account_id s) = Some a1
             \<and> dec_val (balance a1) = dec_val d + sum_list (map net_of_reply (replies ?s ds))"
    by simp
qed

theorem balance_is_ledger_sum_witness:
  "list_all valid_call
     [Call_create_account ''A'' (Decimal 100 (- 1)) 0 0,
      Call_deposit ''ACC000001'' (Decimal 25 (- 2)) ''Deposit'' 1,
      Call_withdraw ''ACC000001'' (Decimal 1 28) ''Withdrawal'' 2,
      Call_withdraw ''ACC000001'' (Decimal 5 0) ''Withdrawal'' 3]
   \<and> exact_run empty_bank
     [Call_create_account ''A'' (Decimal 100 (- 1)) 0 0,
      Call_deposit ''ACC000001'' (Decimal 25 (- 2)) ''Deposit'' 1,
      Call_withdraw ''ACC000001'' (Decimal 1 28) ''Withdrawal'' 2,
      Call_withdraw ''ACC000001'' (Decimal 5 0) ''Withdrawal'' 3]
   \<and> replies empty_bank
     [Call_create_account ''A'' (Decimal 100 (- 1)) 0 0,
      Call_deposit ''ACC000001'' (Decimal 25 (- 2)) ''Deposit'' 1,
      Call_withdraw ''ACC000001'' (Decimal 1 28) ''Withdrawal'' 2,
      Call_withdraw ''ACC000001'' (Decimal 5 0) ''Withdrawal'' 3]
     = [Inr (Created ''ACC000001'' (Decimal 100 (- 1))),
        Inr (Deposited (Decimal 25 (- 2)) ''ACC000001'' (Decimal 1025 (- 2))),
        Inl (InsufficientFunds (Decimal 1025 (- 2))),
        Inr (Withdrew (Decimal 5 0) ''ACC000001'' (Decimal 525 (- 2)))]
   \<and> map_option balance (map_of (accounts (run empty_bank
     [Call_create_account ''A'' (Decimal 100 (- 1)) 0 0,
      Call_deposit ''ACC000001'' (Decimal 25 (- 2)) ''Deposit'' 1,
      Call_withdraw ''ACC000001'' (Decimal 1 28) ''Withdrawal'' 2,
      Call_withdraw ''ACC000001'' (Decimal 5 0) ''Withdrawal'' 3])) ''ACC000001'')
     = Some (Decimal 525 (- 2))
   \<and> dec_val (Decimal 525 (- 2))
     = ledger_sum
         [\<lparr>txn_id = ''TXN000001'', account_id = ''ACC000001'', amount = Decimal 100 (- 1),
           transaction_type = T_deposit, timestamp = 0, description = ''Initial deposit''\<rparr>,
          \<lparr>txn_id = ''TXN000002'', account_id = ''ACC000001'', amount = Decimal 25 (- 2),
           transaction_type = T_deposit, timestamp = 1, description = ''Deposit''\<rparr>,
          \<lparr>txn_id = ''TXN000003'', account_id = ''ACC000001'', amount = Decimal 5 0,
           transaction_type = T_withdrawal, timestamp = 3, description = ''Withdrawal''\<rparr>]
   \<and> 0 \<le> coefficient (Decimal 100 (- 1))
   \<and> list_all (on_account (generate_account_id empty_bank))
       [Call_deposit ''ACC000001'' (Decimal 25 (- 2)) ''Deposit'' 1,
        Call_withdraw ''ACC000001'' (Decimal 1 28) ''Withdrawal'' 2,
        Call_withdraw ''ACC000001'' (Decimal 5 0) ''Withdrawal'' 3]
   \<and> dec_val (Decimal 525 (- 2))
     = dec_val (Decimal 100 (- 1))
       + sum_list (map net_of_reply
           (replies (snd (create_account empty_bank ''A'' (Decimal 100 (- 1)) 0 0))
              [Call_deposit ''ACC000001'' (Decimal 25 (- 2)) ''Deposit'' 1,
               Call_withdraw ''ACC000001'' (Decimal 1 28) ''Withdrawal'' 2,
               Call_withdraw ''ACC000001'' (Decimal 5 0) ''Withdrawal'' 3]))"
proof -
  let ?ds = "[Call_deposit ''ACC000001'' (Decimal 25 (- 2)) ''Deposit'' 1,
      Call_withdraw ''ACC000001'' (Decimal 1 28) ''Withdrawal'' 2,
      Call_withdraw ''ACC000001'' (Decimal 5 0) ''Withdrawal'' 3]"
  let ?cs = "Call_create_account ''A'' (Decimal 100 (- 1)) 0 0 # ?ds"
  let ?acct = "\<lparr>acct_id = ''ACC000001'', name = ''A'', balance = Decimal 525 (- 2),
        transactions =
          [\<lparr>txn_id = ''TXN000001'', account_id = ''ACC000001'', amount = Decimal 100 (- 1),
           transaction_type = T_deposit, timestamp = 0, description = ''Initial deposit''\<rparr>,
          \<lparr>txn_id = ''TXN000002'', account_id = ''ACC000001'', amount = Decimal 25 (- 2),
           transaction_type = T_deposit, timestamp = 1, description = ''Deposit''\<rparr>,
          \<lparr>txn_id = ''TXN000003'', account_id = ''ACC000001'', amount = Decimal 5 0,
           transaction_type = T_withdrawal, timestamp = 3, description = ''Withdrawal''\<rparr>],
        created_at = 0\<rparr>"
  have valid: "list_all valid_call ?cs"
    by simp
  have told: "replies empty_bank ?cs
     = [Inr (Created ''ACC000001'' (Decimal 100 (- 1))),
        Inr (Deposited (Decimal 25 (- 2)) ''ACC000001'' (Decimal 1025 (- 2))),
        Inl (InsufficientFunds (Decimal 1025 (- 2))),
        Inr (Withdrew (Decimal 5 0) ''ACC000001'' (Decimal 525 (- 2)))]"
    by (simp add: exec_defs format_06d_digit digit_char_def dec_defs)
  have exact: "exact_run empty_bank ?cs"
    by (simp add: exact_call_def exact_update_def exec_defs format_06d_digit digit_char_def
        dec_defs)
  have present: "map_of (accounts (run empty_bank ?cs)) ''ACC000001'' = Some ?acct"
    by (simp add: exec_defs format_06d_digit digit_char_def dec_defs)
  have aid: "generate_account_id empty_bank = ''ACC000001''"
    by (simp add: exec_defs format_06d_digit digit_char_def)
  have on: "list_all (on_account (generate_account_id empty_bank)) ?ds"
    by (simp add: aid)
  have first: "dec_val (balance ?acct) = ledger_sum (transactions ?acct)"
    using balance_is_ledger_sum [where cs = ?cs and aid = "''ACC000001''" and acct = ?acct]
      valid exact present by blast
  have "\<exists>a1. map_of (accounts (run (snd (create_account empty_bank ''A'' (Decimal 100 (- 1)) 0 0))
              ?ds)) (generate_account_id empty_bank) = Some a1
      \<and> dec_val (balance a1)
        = dec_val (Decimal 100 (- 1))
          + sum_list (map net_of_reply
              (replies (snd (create_account empty_bank ''A'' (Decimal 100 (- 1)) 0 0)) ?ds))"
    using balance_is_ledger_sum [where d = "Decimal 100 (- 1)" and s = empty_bank and ds = ?ds
        and nm = "''A''" and ?t1.0 = 0 and ?t2.0 = 0]
      on exact by simp
  then have second: "dec_val (balance ?acct)
        = dec_val (Decimal 100 (- 1))
          + sum_list (map net_of_reply
              (replies (snd (create_account empty_bank ''A'' (Decimal 100 (- 1)) 0 0)) ?ds))"
    using present by (auto simp: aid)
  show ?thesis
    using valid told exact present first second on by simp
qed

text \<open>
  C1 as stated fails once a balance needs more than 28 digits: an account opened with
  \<open>1e28\<close> and given a deposit of \<open>0.01\<close> keeps the balance \<open>1e28\<close>, while its two
  stored transactions add up to \<open>1e28 + 0.01\<close>.
\<close>

theorem balance_is_ledger_sum_counterexample:
  "list_all valid_call
     [Call_create_account ''A'' (Decimal 1 28) 0 0,
      Call_deposit ''ACC000001'' (Decimal 1 (- 2)) ''Deposit'' 1]
   \<and> map_option (dec_val \<circ> balance) (map_of (accounts (run empty_bank
     [Call_create_account ''A'' (Decimal 1 28) 0 0,
      Call_deposit ''ACC000001'' (Decimal 1 (- 2)) ''Deposit'' 1])) ''ACC000001'')
     = Some 10000000000000000000000000000
   \<and> map_option (ledger_sum \<circ> transactions) (map_of (accounts (run empty_bank
     [Call_create_account ''A'' (Decimal 1 28) 0 0,
      Call_deposit ''ACC000001'' (Decimal 1 (- 2)) ''Deposit'' 1])) ''ACC000001'')
     = Some (10000000000000000000000000000 + 1 / 100)"
  by (simp add: exec_defs format_06d_digit digit_char_def dec_defs dec_val_def
      ledger_sum_def signed_amount_def)

section \<open>Transfers that succeed\<close>

text \<open>
  C2, as the code has it. When a transfer of \<open>amt\<close> from \<open>from_id\<close> to \<open>to_id\<close>
  succeeds, the two identifiers differ, and the store changes in exactly two entries: the
  source account gets the balance \<open>balance - amt\<close> and one more transaction, a
  \<open>transfer_out\<close> of \<open>amt\<close> described as \<open>descr to to_id\<close>; the destination gets
  the balance \<open>balance + amt\<close> and one more transaction, a \<open>transfer_in\<close> of \<open>amt\<close>
  described as \<open>descr from from_id\<close>; both transactions carry the one clock reading.
  Provided neither difference nor sum needs more than the 28 digits of the decimal
  context, the source balance goes down by exactly \<open>amt\<close> and the destination balance
  up by exactly \<open>amt\<close>.
\<close>

theorem transfer_spec:
  assumes "fst (transfer s from_id to_id amt descr now) = Inr v"
    and "map_of (accounts s) from_id = Some from_account"
    and "map_of (accounts s) to_id = Some to_account"
  shows "from_id \<noteq> to_id
    \<and> v = Transferred amt from_id to_id
          (dec_sub (balance from_account) amt) (dec_add (balance to_account) amt)
    \<and> map_of (accounts (snd (transfer s from_id to_id amt descr now)))
      = (map_of (accounts s))
          (from_id \<mapsto>
             from_account\<lparr>balance := dec_sub (balance from_account) amt,
               transactions := transactions from_account @
                 [\<lparr>txn_id = ''TXN'' @ format_06d (transaction_counter s + 1),
                   account_id = from_id, amount = amt, transaction_type = T_transfer_out,
                   timestamp = now, description = descr @ '' to '' @ to_id\<rparr>]\<rparr>,
           to_id \<mapsto>
             to_account\<lparr>balance := dec_add (balance to_account) amt,
               transactions := transactions to_account @
                 [\<lparr>txn_id = ''TXN'' @ format_06d (transaction_counter s + 1 + 1),
                   account_id = to_id, amount = amt, transaction_type = T_transfer_in,
                   timestamp = now, description = descr @ '' from '' @ from_id\<rparr>]\<rparr>)
    \<and> (fits (add_exact (balance from_account) (dec_neg amt)) \<longrightarrow>
          dec_val (dec_sub (balance from_account) amt)
            = dec_val (balance from_account) - dec_val amt)
    \<and> (fits (add_exact (balance to_account) amt) \<longrightarrow>
          dec_val (dec_add (balance to_account) amt)
            = dec_val (balance to_account) + dec_val amt)"
proof -
  from assms have ne: "from_id \<noteq> to_id"
    and enough: "\<not> dec_val (balance from_account) < dec_val amt"
    by (auto simp: transfer_def dec_less_iff Let_def split: if_splits)
  from transfer_success [OF assms(2,3) ne enough, of descr now] ne assms(1)
  show ?thesis
    by (simp add: dec_val_sub dec_val_add)
qed

theorem transfer_spec_witness:
  "fst (transfer
      (run empty_bank [Call_create_account ''Alice'' (Decimal 1000 (- 1)) 0 0,
                       Call_create_account ''Bob'' (Decimal 500 (- 1)) 1 1])
      ''ACC000001'' ''ACC000002'' (Decimal 300 (- 1)) ''Transfer'' 2)
    = Inr (Transferred (Decimal 300 (- 1)) ''ACC000001'' ''ACC000002''
        (Decimal 700 (- 1)) (Decimal 800 (- 1)))
   \<and> fits (add_exact (Decimal 1000 (- 1)) (dec_neg (Decimal 300 (- 1))))
   \<and> fits (add_exact (Decimal 500 (- 1)) (Decimal 300 (- 1)))
   \<and> dec_val (dec_sub (Decimal 1000 (- 1)) (Decimal 300 (- 1)))
      = dec_val (Decimal 1000 (- 1)) - dec_val (Decimal 300 (- 1))
   \<and> dec_val (dec_add (Decimal 500 (- 1)) (Decimal 300 (- 1)))
      = dec_val (Decimal 500 (- 1)) + dec_val (Decimal 300 (- 1))"
proof -
  let ?s = "run empty_bank [Call_create_account ''Alice'' (Decimal 1000 (- 1)) 0 0,
                       Call_create_account ''Bob'' (Decimal 500 (- 1)) 1 1]"
  let ?alice = "\<lparr>acct_id = ''ACC000001'', name = ''Alice'', balance = Decimal 1000 (- 1),
      transactions =
        [\<lparr>txn_id = ''TXN000001'', account_id = ''ACC000001'', amount = Decimal 1000 (- 1),
          transaction_type = T_deposit, timestamp = 0, description = ''Initial deposit''\<rparr>],
      created_at = 0\<rparr>"
  let ?bob = "\<lparr>acct_id = ''ACC000002'', name = ''Bob'', balance = Decimal 500 (- 1),
      transactions =
        [\<lparr>txn_id = ''TXN000002'', account_id = ''ACC000002'', amount = Decimal 500 (- 1),
          transaction_type = T_deposit, timestamp = 1, description = ''Initial deposit''\<rparr>],
      created_at = 1\<rparr>"
  have alice: "map_of (accounts ?s) ''ACC000001'' = Some ?alice"
    by (simp add: exec_defs format_06d_digit digit_char_def)
  have bob: "map_of (accounts ?s) ''ACC000002'' = Some ?bob"
    by (simp add: exec_defs format_06d_digit digit_char_def)
  have ok: "fst (transfer ?s ''ACC000001'' ''ACC000002'' (Decimal 300 (- 1)) ''Transfer'' 2)
    = Inr (Transferred (Decimal 300 (- 1)) ''ACC000001'' ''ACC000002''
        (Decimal 700 (- 1)) (Decimal 800 (- 1)))"
    by (simp add: exec_defs format_06d_digit digit_char_def dec_defs)
  have f1: "fits (add_exact (balance ?alice) (dec_neg (Decimal 300 (- 1))))"
    by (simp add: dec_defs)
  have f2: "fits (add_exact (balance ?bob) (Decimal 300 (- 1)))"
    by (simp add: dec_defs)
  from transfer_spec [OF ok alice bob] ok f1 f2 show ?thesis
    by simp
qed

text \<open>
  C2 as stated fails when the sum is rounded: a transfer of \<open>0.01\<close> into an account
  holding \<open>1e28\<close> succeeds, takes \<open>0.01\<close> from the source, and leaves the destination
  at \<open>1e28\<close>.
\<close>

theorem transfer_spec_counterexample:
  "fst (transfer
      (run empty_bank [Call_create_account ''Alice'' (Decimal 1000 (- 1)) 0 0,
                       Call_create_account ''Bob'' (Decimal 1 28) 1 1])
      ''ACC000001'' ''ACC000002'' (Decimal 1 (- 2)) ''Transfer'' 2)
    = Inr (Transferred (Decimal 1 (- 2)) ''ACC000001'' ''ACC000002''
        (Decimal 9999 (- 2)) (Decimal 1000000000000000000000000000 1))
   \<and> map_option balance (map_of (accounts
      (run empty_bank [Call_create_account ''Alice'' (Decimal 1000 (- 1)) 0 0,
                       Call_create_account ''Bob'' (Decimal 1 28) 1 1])) ''ACC000002'')
     = Some (Decimal 1 28)
   \<and> dec_val (Decimal 1000000000000000000000000000 1) = dec_val (Decimal 1 28)"
  by (simp add: exec_defs format_06d_digit digit_char_def dec_defs dec_val_def)

section \<open>Withdrawals\<close>

text \<open>
  C5, as the code has it. For an account in the store and a positive amount,
  \<open>withdraw\<close> succeeds exactly when the amount does not exceed the balance. When it
  exceeds the balance the reply is \<open>InsufficientFunds\<close> with the available balance and
  the store is unchanged. Otherwise one withdrawal transaction is appended and the balance
  becomes \<open>balance - amt\<close> in decimal arithmetic, which is the balance less exactly the
  amount provided the difference needs no more than the 28 digits of the decimal context.
\<close>

theorem withdraw_spec:
  assumes "map_of (accounts s) aid = Some acct" and "0 < dec_val amt"
  shows "((\<exists>v. fst (withdraw s aid amt descr now) = Inr v)
            \<longleftrightarrow> \<not> dec_val (balance acct) < dec_val amt)
    \<and> (dec_val (balance acct) < dec_val amt \<longrightarrow>
          withdraw s aid amt descr now = (Inl (InsufficientFunds (balance acct)), s)
          \<and> error_message (InsufficientFunds (balance acct))
            = ''Error: Insufficient funds. Available balance: $'' @ format_2f (balance acct))
    \<and> (\<not> dec_val (balance acct) < dec_val amt \<longrightarrow>
          fst (withdraw s aid amt descr now)
            = Inr (Withdrew amt aid (dec_sub (balance acct) amt))
          \<and> map_of (accounts (snd (withdraw s aid amt descr now)))
            = (map_of (accounts s))(aid \<mapsto>
                acct\<lparr>balance := dec_sub (balance acct) amt,
                  transactions := transactions acct @
                    [\<lparr>txn_id = ''TXN'' @ format_06d (transaction_counter s + 1),
                      account_id = aid, amount = amt, transaction_type = T_withdrawal,
                      timestamp = now, description = descr\<rparr>]\<rparr>)
          \<and> (fits (add_exact (balance acct) (dec_neg amt)) \<longrightarrow>
                dec_val (dec_sub (balance acct) amt) = dec_val (balance acct) - dec_val amt))"
proof (cases "dec_val (balance acct) < dec_val amt")
  case True
  with withdraw_insufficient [OF assms(1) True, of descr now] show ?thesis
    by simp
next
  case False
  with withdraw_sufficient [OF assms(1) False, of descr now] show ?thesis
    by (simp add: dec_val_sub)
qed

theorem withdraw_spec_witness:
  "map_of (accounts (snd (create_account empty_bank ''A'' (Decimal 100 (- 1)) 0 0))) ''ACC000001''
     = Some \<lparr>acct_id = ''ACC000001'', name = ''A'', balance = Decimal 100 (- 1),
         transactions =
           [\<lparr>txn_id = ''TXN000001'', account_id = ''ACC000001'', amount = Decimal 100 (- 1),
             transaction_type = T_deposit, timestamp = 0, description = ''Initial deposit''\<rparr>],
         created_at = 0\<rparr>
   \<and> 0 < dec_val (Decimal 500 (- 1)) \<and> dec_val (Decimal 100 (- 1)) < dec_val (Decimal 500 (- 1))
   \<and> withdraw (snd (create_account empty_bank ''A'' (Decimal 100 (- 1)) 0 0))
        ''ACC000001'' (Decimal 500 (- 1)) ''Withdrawal'' 1
      = (Inl (InsufficientFunds (Decimal 100 (- 1))),
         snd (create_account empty_bank ''A'' (Decimal 100 (- 1)) 0 0))
   \<and> 0 < dec_val (Decimal 25 (- 2)) \<and> \<not> dec_val (Decimal 100 (- 1)) < dec_val (Decimal 25 (- 2))
   \<and> fits (add_exact (Decimal 100 (- 1)) (dec_neg (Decimal 25 (- 2))))
   \<and> fst (withdraw (snd (create_account empty_bank ''A'' (Decimal 100 (- 1)) 0 0))
        ''ACC000001'' (Decimal 25 (- 2)) ''Withdrawal'' 1)
      = Inr (Withdrew (Decimal 25 (- 2)) ''ACC000001'' (Decimal 975 (- 2)))
   \<and> dec_val (Decimal 975 (- 2)) = dec_val (Decimal 100 (- 1)) - dec_val (Decimal 25 (- 2))"
proof -
  let ?s = "snd (create_account empty_bank ''A'' (Decimal 100 (- 1)) 0 0)"
  let ?a = "\<lparr>acct_id = ''ACC000001'', name = ''A'', balance = Decimal 100 (- 1),
         transactions =
           [\<lparr>txn_id = ''TXN000001'', account_id = ''ACC000001'', amount = Decimal 100 (- 1),
             transaction_type = T_deposit, timestamp = 0, description = ''Initial deposit''\<rparr>],
         created_at = 0\<rparr>"
  have present: "map_of (accounts ?s) ''ACC000001'' = Some ?a"
    by (simp add: exec_defs format_06d_digit digit_char_def)
  have pos1: "0 < dec_val (Decimal 500 (- 1))" and pos2: "0 < dec_val (Decimal 25 (- 2))"
    by (simp_all add: dec_val_pos)
  have less: "dec_val (Decimal 100 (- 1)) < dec_val (Decimal 500 (- 1))"
    by (simp add: dec_less_iff [symmetric] dec_less_def aligned_def)
  have not_less: "\<not> dec_val (Decimal 100 (- 1)) < dec_val (Decimal 25 (- 2))"
    by (simp add: dec_less_iff [symmetric] dec_less_def aligned_def)
  have fit: "fits (add_exact (Decimal 100 (- 1)) (dec_neg (Decimal 25 (- 2))))"
    by (simp add: dec_defs)
  have sub: "dec_sub (Decimal 100 (- 1)) (Decimal 25 (- 2)) = Decimal 975 (- 2)"
    by (simp add: dec_defs)
  from withdraw_spec [OF present pos1, of "''Withdrawal''" 1]
    withdraw_spec [OF present pos2, of "''Withdrawal''" 1]
    present pos1 pos2 less not_less fit sub
  show ?thesis
    by simp
qed

text \<open>
  C5 as stated fails when the difference is rounded: withdrawing \<open>0.01\<close> from an
  account holding \<open>1e28\<close> succeeds and leaves the balance at \<open>1e28\<close>.
\<close>

theorem withdraw_spec_counterexample:
  "map_option balance
     (map_of (accounts (snd (create_account empty_bank ''A'' (Decimal 1 28) 0 0))) ''ACC000001'')
     = Some (Decimal 1 28)
   \<and> 0 < dec_val (Decimal 1 (- 2))
   \<and> \<not> dec_less (Decimal 1 28) (Decimal 1 (- 2))
   \<and> fst (withdraw (snd (create_account empty_bank ''A'' (Decimal 1 28) 0 0))
        ''ACC000001'' (Decimal 1 (- 2)) ''Withdrawal'' 1)
      = Inr (Withdrew (Decimal 1 (- 2)) ''ACC000001'' (Decimal 1000000000000000000000000000 1))
   \<and> dec_val (Decimal 1000000000000000000000000000 1) = dec_val (Decimal 1 28)"
  by (simp add: exec_defs format_06d_digit digit_char_def dec_defs dec_val_def)

end
